theory Spec2Isabelle
  imports Complex_Main "HOL-Library.Multiset" "HOL-Library.Sublist"
begin

section \<open>JavaScript values\<close>

text \<open>
  Result rows are JSON objects (\<^verbatim>\<open>Record<string, any>\<close>): an association list from column
  name to a scalar. A key that is absent reads as \<^verbatim>\<open>undefined\<close>, which is \<open>None\<close> here.
  A field of type \<^verbatim>\<open>string | null\<close> is a \<open>string option\<close>.
\<close>

datatype jsvalue = JNull | JBool bool | JNum rat | JStr string | JArr "jsvalue list"

type_synonym row = "(string \<times> jsvalue) list"

text \<open>
  Numbers computed by the program are rationals or \<^verbatim>\<open>NaN\<close> (what \<^verbatim>\<open>Number('abc')\<close> gives);
  infinities and rounding are left out.
\<close>

datatype jsnum = NaN | Fin rat

fun js_minus :: "jsnum \<Rightarrow> jsnum \<Rightarrow> jsnum" where
  "js_minus (Fin a) (Fin b) = Fin (a - b)"
| "js_minus _ _ = NaN"

fun js_neg :: "jsnum \<Rightarrow> jsnum" where
  "js_neg (Fin a) = Fin (- a)"
| "js_neg NaN = NaN"

text \<open>Truthiness, as \<^verbatim>\<open>!x\<close> and \<^verbatim>\<open>x || y\<close> test it.\<close>

fun truthy :: "jsvalue option \<Rightarrow> bool" where
  "truthy None = False"
| "truthy (Some JNull) = False"
| "truthy (Some (JBool b)) = b"
| "truthy (Some (JNum n)) = (n \<noteq> 0)"
| "truthy (Some (JStr s)) = (s \<noteq> [])"
| "truthy (Some (JArr xs)) = True"

fun truthy_str :: "string option \<Rightarrow> bool" where
  "truthy_str None = False"
| "truthy_str (Some s) = (s \<noteq> [])"

text \<open>\<^verbatim>\<open>x || d\<close> on a cell of a row.\<close>

definition or_default :: "jsvalue option \<Rightarrow> jsvalue \<Rightarrow> jsvalue" where
  "or_default v d = (case v of Some x \<Rightarrow> (if truthy v then x else d) | None \<Rightarrow> d)"

text \<open>\<^verbatim>\<open>s || null\<close> on a string that may be undefined.\<close>

definition or_null :: "string option \<Rightarrow> string option" where
  "or_null v = (if truthy_str v then v else None)"

text \<open>
  The built-in conversions \<^verbatim>\<open>String(v)\<close>, \<^verbatim>\<open>Number(v)\<close> and the locale's collation
  \<^verbatim>\<open>a.localeCompare(b)\<close> are parameters of the functions that call them.
\<close>

record js_builtins =
  js_String :: "jsvalue \<Rightarrow> string"
  js_Number :: "jsvalue \<Rightarrow> jsnum"
  js_localeCompare :: "string \<Rightarrow> string \<Rightarrow> int"

text \<open>\<^verbatim>\<open>xs[0]\<close>: \<^verbatim>\<open>undefined\<close> on an empty array.\<close>

fun index0 :: "'a list \<Rightarrow> 'a option" where
  "index0 [] = None"
| "index0 (x # _) = Some x"

text \<open>\<^verbatim>\<open>s.toLowerCase()\<close> on the ASCII letters.\<close>

definition toLowerCase_char :: "char \<Rightarrow> char" where
  "toLowerCase_char c =
     (let n = (of_char c :: nat) in if 65 \<le> n \<and> n \<le> 90 then char_of (n + 32) else c)"

definition toLowerCase :: "string \<Rightarrow> string" where
  "toLowerCase s = map toLowerCase_char s"

section \<open>Query builder types (types/queryBuilder.ts, types/visualization.ts)\<close>

record QueryResponse =
  columns :: "string list"
  data :: "row list"
  row_count :: nat
  generated_sql :: string
  entity_name :: string

datatype ChartType = Bar | Line | Area | Pie

record ChartConfiguration =
  chart_type :: ChartType
  x_axis_column :: "string option"
  y_axis_columns :: "string list"
  category_column :: "string option"
  value_column :: "string option"
  sort_order :: "string option"
  sort_by :: "string option"
  color_mode :: "string option"
  conditional_colors :: "(string \<times> string) list option"

section \<open>chartUtils.ts\<close>

subsection \<open>inferChartConfig\<close>

definition measure_keywords :: "string list" where
  "measure_keywords = [''sum'', ''avg'', ''count'', ''min'', ''max'', ''total'', ''amount'',
     ''revenue'', ''quantity'', ''median'', ''stddev'']"

text \<open>
  \<^verbatim>\<open>/(sum|avg|...|stddev)/i.test(s)\<close>: some keyword occurs in \<open>s\<close>, letter case ignored.
\<close>

definition measure_regex_test :: "string \<Rightarrow> bool" where
  "measure_regex_test s = list_ex (\<lambda>kw. sublist kw (toLowerCase s)) measure_keywords"

definition typeof_number :: "jsvalue option \<Rightarrow> bool" where
  "typeof_number v = (case v of Some (JNum _) \<Rightarrow> True | _ \<Rightarrow> False)"

definition default_conditional_colors :: "(string \<times> string) list" where
  "default_conditional_colors =
     [(''positive'', ''#5470c6''), (''negative'', ''#ee6666''), (''zero'', ''#91cc75'')]"

definition inferChartConfig :: "QueryResponse \<Rightarrow> ChartConfiguration" where
  "inferChartConfig response =
     (let dimensions = filter (\<lambda>col. \<not> measure_regex_test (toLowerCase col)) (columns response);
          measures = filter (\<lambda>col. measure_regex_test (toLowerCase col) \<or>
                        (case data response of [] \<Rightarrow> False
                         | r0 # _ \<Rightarrow> typeof_number (map_of r0 col))) (columns response);
          finalDimensions = (if length dimensions > 0 then map Some dimensions
                             else [index0 (columns response)]);
          finalMeasures = (if length measures > 0 then measures else drop 1 (columns response))
      in \<lparr> chart_type = Bar,
           x_axis_column = or_null (case index0 finalDimensions of None \<Rightarrow> None | Some c \<Rightarrow> c),
           y_axis_columns = (if length finalMeasures > 0 then finalMeasures else []),
           category_column = None,
           value_column = None,
           sort_order = Some ''none'',
           sort_by = Some ''category'',
           color_mode = Some ''conditional'',
           conditional_colors = Some default_conditional_colors \<rparr>)"

subsection \<open>sortData\<close>

text \<open>
  \<^verbatim>\<open>Array.prototype.sort(cmp)\<close> is a stable sort: an element moves behind a later one only
  when the comparator's result is positive (\<^verbatim>\<open>NaN\<close> counts as zero). It is modelled by
  stable insertion.
\<close>

fun cmp_positive :: "jsnum \<Rightarrow> bool" where
  "cmp_positive NaN = False"
| "cmp_positive (Fin v) = (v > 0)"

fun insert_cmp :: "('a \<Rightarrow> 'a \<Rightarrow> jsnum) \<Rightarrow> 'a \<Rightarrow> 'a list \<Rightarrow> 'a list" where
  "insert_cmp cmp x [] = [x]"
| "insert_cmp cmp x (y # ys) =
     (if cmp_positive (cmp x y) then y # insert_cmp cmp x ys else x # y # ys)"

fun array_sort :: "('a \<Rightarrow> 'a \<Rightarrow> jsnum) \<Rightarrow> 'a list \<Rightarrow> 'a list" where
  "array_sort cmp [] = []"
| "array_sort cmp (x # xs) = insert_cmp cmp x (array_sort cmp xs)"

text \<open>
  The comparator that sortData passes to \<^verbatim>\<open>sort\<close>. A column argument is a
  \<open>string option\<close>: the caller passes \<^verbatim>\<open>config.x_axis_column!\<close>, which can be null when
  the code runs, and \<^verbatim>\<open>yColumns[0]\<close>, which is undefined on an empty list; a row read at
  either is undefined.
\<close>

definition cell :: "row \<Rightarrow> string option \<Rightarrow> jsvalue option" where
  "cell r col = (case col of None \<Rightarrow> None | Some c \<Rightarrow> map_of r c)"

definition sortData_compare ::
  "js_builtins \<Rightarrow> string option \<Rightarrow> string option \<Rightarrow> string \<Rightarrow> string \<Rightarrow> row \<Rightarrow> row
     \<Rightarrow> jsnum" where
  "sortData_compare js xColumn primaryYColumn sortOrder sortBy a b =
     (let compareValue =
        (if sortBy = ''category'' then
           (let aVal = js_String js (or_default (cell a xColumn) (JStr ''''));
                bVal = js_String js (or_default (cell b xColumn) (JStr ''''))
            in Fin (of_int (js_localeCompare js aVal bVal)))
         else
           (let aVal = js_Number js (or_default (cell a primaryYColumn) (JNum 0));
                bVal = js_Number js (or_default (cell b primaryYColumn) (JNum 0))
            in js_minus aVal bVal))
      in if sortOrder = ''ascending'' then compareValue else js_neg compareValue)"

definition sortData ::
  "js_builtins \<Rightarrow> row list \<Rightarrow> string option \<Rightarrow> string list \<Rightarrow> string \<Rightarrow> string \<Rightarrow> row list" where
  "sortData js dat xColumn yColumns sortOrder sortBy =
     (if sortOrder = ''none'' then dat
      else array_sort (sortData_compare js xColumn (index0 yColumns) sortOrder sortBy) dat)"

text \<open>
  The same function over a store of array objects, an array reference being an index into
  the store: \<^verbatim>\<open>[...data]\<close> allocates a new array and \<^verbatim>\<open>sorted.sort(...)\<close> overwrites that
  one in place. The result is the store afterwards and the reference returned.
\<close>

type_synonym array_store = "row list list"

definition sortData_store ::
  "js_builtins \<Rightarrow> array_store \<Rightarrow> nat \<Rightarrow> string option \<Rightarrow> string list \<Rightarrow> string \<Rightarrow> string
     \<Rightarrow> array_store \<times> nat" where
  "sortData_store js st dat xColumn yColumns sortOrder sortBy =
     (if sortOrder = ''none'' then (st, dat)
      else
        (let sorted = length st;
             st1 = st @ [st ! dat];
             st2 = st1[sorted := array_sort
                      (sortData_compare js xColumn (index0 yColumns) sortOrder sortBy)
                      (st1 ! sorted)]
         in (st2, sorted)))"

subsection \<open>validateChartConfig\<close>

definition quoted :: "string \<Rightarrow> string" where
  "quoted s = [CHR 0x22] @ s @ [CHR 0x22]"

text \<open>The loop over \<^verbatim>\<open>config.y_axis_columns\<close>, returning at the first column not found.\<close>

fun validate_y_columns :: "string list \<Rightarrow> string list \<Rightarrow> string option" where
  "validate_y_columns [] cols = None"
| "validate_y_columns (col # rest) cols =
     (if col \<notin> set cols then Some (''Y-axis column '' @ quoted col @ '' not found in results'')
      else validate_y_columns rest cols)"

definition validateChartConfig :: "ChartConfiguration \<Rightarrow> string list \<Rightarrow> string option" where
  "validateChartConfig config cols =
     (if chart_type config = Pie then
        (if \<not> truthy_str (category_column config) \<or> \<not> truthy_str (value_column config) then
           Some ''Pie charts require both a category column and a value column''
         else if the (category_column config) \<notin> set cols then
           Some (''Category column '' @ quoted (the (category_column config)) @
                 '' not found in results'')
         else if the (value_column config) \<notin> set cols then
           Some (''Value column '' @ quoted (the (value_column config)) @
                 '' not found in results'')
         else None)
      else
        (if \<not> truthy_str (x_axis_column config) then Some ''X-axis column is required''
         else if the (x_axis_column config) \<notin> set cols then
           Some (''X-axis column '' @ quoted (the (x_axis_column config)) @
                 '' not found in results'')
         else if length (y_axis_columns config) = 0 then
           Some ''At least one Y-axis column is required''
         else validate_y_columns (y_axis_columns config) cols))"

subsection \<open>transformDataForECharts\<close>

text \<open>
  The ECharts option, reduced to the parts computed from the data and the configuration:
  the fixed styling and the formatter callbacks are left out, and the conditional colouring
  of a series is recorded as a flag.
\<close>

record Series =
  series_name :: string
  series_type :: ChartType
  series_data :: "jsnum list"
  series_areaStyle :: bool
  series_smooth :: bool
  series_conditional :: bool

datatype EChartsOption =
    PieOption string "(string \<times> jsnum) list"
  | AxisOption string "string list" "string list" nat string nat "Series list"

definition str_or :: "string option \<Rightarrow> string \<Rightarrow> string" where
  "str_or v d = (case or_null v of Some s \<Rightarrow> s | None \<Rightarrow> d)"

definition transformDataForECharts ::
  "js_builtins \<Rightarrow> QueryResponse \<Rightarrow> ChartConfiguration \<Rightarrow> ChartType \<Rightarrow> EChartsOption" where
  "transformDataForECharts js dat config chartType =
     (if chartType = Pie then
        PieOption (str_or (category_column config) ''Category'')
          (map (\<lambda>r. (js_String js (or_default (cell r (category_column config)) (JStr [])),
                      js_Number js (or_default (cell r (value_column config)) (JNum 0))))
               (data dat))
      else
        (let sortedData = sortData js (data dat) (x_axis_column config) (y_axis_columns config)
                            (str_or (sort_order config) ''none'')
                            (str_or (sort_by config) ''category'');
             xAxisData = map (\<lambda>r. js_String js (or_default (cell r (x_axis_column config))
                                                    (JStr []))) sortedData;
             useConditionalColors = (color_mode config = Some ''conditional'' \<and>
                                     chartType = Bar \<and> length (y_axis_columns config) = 1)
         in AxisOption (if chartType = Bar then ''shadow'' else ''cross'')
              (y_axis_columns config)
              xAxisData
              (if length xAxisData > 10 then 45 else 0)
              (str_or (x_axis_column config) [])
              (if length xAxisData > 10 then 50 else 30)
              (map (\<lambda>col.
                 \<lparr> series_name = col,
                   series_type = (if chartType = Area then Line else chartType),
                   series_data = map (\<lambda>r. js_Number js (or_default (map_of r col) (JNum 0)))
                                     sortedData,
                   series_areaStyle = (chartType = Area),
                   series_smooth = (chartType = Line \<or> chartType = Area),
                   series_conditional = useConditionalColors \<rparr>)
                 (y_axis_columns config))))"

section \<open>ChartVisualization.tsx\<close>

text \<open>The two memoised values: the validation error and the chart option built from it.\<close>

definition validationError :: "QueryResponse \<Rightarrow> ChartConfiguration \<Rightarrow> string option" where
  "validationError dat config = validateChartConfig config (columns dat)"

definition chartOption ::
  "js_builtins \<Rightarrow> QueryResponse \<Rightarrow> ChartConfiguration \<Rightarrow> ChartType \<Rightarrow> EChartsOption option" where
  "chartOption js dat config chartType =
     (if truthy_str (validationError dat config) then None
      else Some (transformDataForECharts js dat config chartType))"

section \<open>FilterBuilder.tsx\<close>

datatype data_type = DT_string | DT_integer | DT_date | DT_boolean | DT_decimal

record SemanticDimension =
  dim_id :: string
  dim_name :: string
  sql_column :: string
  data_type :: data_type

text \<open>
  An operator is the string the code carries. The type \<^verbatim>\<open>FilterCondition['operator']\<close>
  is the union of these eleven literals.
\<close>

definition FilterCondition_operators :: "string list" where
  "FilterCondition_operators =
     [''='', ''!='', ''>'', ''<'', ''>='', ''<='', ''IN'', ''NOT IN'', ''LIKE'', ''IS NULL'',
      ''IS NOT NULL'']"

record FilterCondition =
  fc_dimension_id :: string
  fc_operator :: string
  fc_value :: jsvalue

record FilterRow =
  row_id :: string
  dimension_id :: string
  operator :: string
  filter_value :: jsvalue

fun OPERATORS_BY_TYPE :: "data_type \<Rightarrow> string list" where
  "OPERATORS_BY_TYPE DT_string =
     [''='', ''!='', ''LIKE'', ''IN'', ''NOT IN'', ''IS NULL'', ''IS NOT NULL'']"
| "OPERATORS_BY_TYPE DT_integer =
     [''='', ''!='', ''>'', ''<'', ''>='', ''<='', ''IN'', ''NOT IN'', ''IS NULL'', ''IS NOT NULL'']"
| "OPERATORS_BY_TYPE DT_decimal =
     [''='', ''!='', ''>'', ''<'', ''>='', ''<='', ''IN'', ''NOT IN'', ''IS NULL'', ''IS NOT NULL'']"
| "OPERATORS_BY_TYPE DT_date =
     [''='', ''!='', ''>'', ''<'', ''>='', ''<='', ''IS NULL'', ''IS NOT NULL'']"
| "OPERATORS_BY_TYPE DT_boolean = [''='', ''!='', ''IS NULL'', ''IS NOT NULL'']"

definition OPERATOR_LABELS :: "(string \<times> string) list" where
  "OPERATOR_LABELS =
     [(''='', ''equals''), (''!='', ''not equals''), (''>'', ''greater than''),
      (''<'', ''less than''), (''>='', ''greater than or equal''),
      (''<='', ''less than or equal''), (''IN'', ''is one of''), (''NOT IN'', ''is not one of''),
      (''LIKE'', ''contains''), (''IS NULL'', ''is empty''), (''IS NOT NULL'', ''is not empty'')]"

text \<open>\<^verbatim>\<open>Date.now()\<close>, printed, is the argument \<open>now\<close>.\<close>

definition addFilter :: "string \<Rightarrow> FilterRow list \<Rightarrow> FilterRow list" where
  "addFilter now fs =
     fs @ [\<lparr> row_id = ''filter_'' @ now, dimension_id = [], operator = ''='',
             filter_value = JNull \<rparr>]"

definition removeFilter :: "string \<Rightarrow> FilterRow list \<Rightarrow> FilterRow list" where
  "removeFilter fid fs = filter (\<lambda>f. row_id f \<noteq> fid) fs"

text \<open>\<^verbatim>\<open>Partial<FilterRow>\<close>: a field that is \<open>None\<close> is absent from the update.\<close>

record FilterRow_updates =
  upd_dimension_id :: "string option"
  upd_operator :: "string option"
  upd_value :: "jsvalue option"

definition merge_updates :: "FilterRow \<Rightarrow> FilterRow_updates \<Rightarrow> FilterRow" where
  "merge_updates f u =
     \<lparr> row_id = row_id f,
       dimension_id = (case upd_dimension_id u of Some d \<Rightarrow> d | None \<Rightarrow> dimension_id f),
       operator = (case upd_operator u of Some op \<Rightarrow> op | None \<Rightarrow> operator f),
       filter_value = (case upd_value u of Some v \<Rightarrow> v | None \<Rightarrow> filter_value f) \<rparr>"

definition updateFilter :: "string \<Rightarrow> FilterRow_updates \<Rightarrow> FilterRow list \<Rightarrow> FilterRow list" where
  "updateFilter fid updates fs = map (\<lambda>f. if row_id f = fid then merge_updates f updates else f) fs"

text \<open>The operators offered by the operator selector of a filter row.\<close>

definition operators_of :: "SemanticDimension list \<Rightarrow> FilterRow \<Rightarrow> string list" where
  "operators_of dimensions f =
     (case find (\<lambda>d. dim_id d = dimension_id f) dimensions of
        Some dimension \<Rightarrow> OPERATORS_BY_TYPE (data_type dimension)
      | None \<Rightarrow> [])"

text \<open>The \<^verbatim>\<open>onChange\<close> handlers of the dimension, operator and value inputs of a row.\<close>

definition onDimensionChange ::
  "SemanticDimension list \<Rightarrow> FilterRow \<Rightarrow> string \<Rightarrow> FilterRow list \<Rightarrow> FilterRow list" where
  "onDimensionChange dimensions f dimensionId fs =
     (let dim = find (\<lambda>d. dim_id d = dimensionId) dimensions
      in updateFilter (row_id f)
           \<lparr> upd_dimension_id = Some dimensionId,
             upd_operator = Some (case dim of Some d \<Rightarrow> OPERATORS_BY_TYPE (data_type d) ! 0
                                   | None \<Rightarrow> ''=''),
             upd_value = Some JNull \<rparr> fs)"

definition onOperatorChange :: "FilterRow \<Rightarrow> string \<Rightarrow> FilterRow list \<Rightarrow> FilterRow list" where
  "onOperatorChange f op fs =
     updateFilter (row_id f)
       \<lparr> upd_dimension_id = None, upd_operator = Some op, upd_value = Some JNull \<rparr> fs"

definition onValueChange :: "FilterRow \<Rightarrow> jsvalue \<Rightarrow> FilterRow list \<Rightarrow> FilterRow list" where
  "onValueChange f v fs =
     updateFilter (row_id f)
       \<lparr> upd_dimension_id = None, upd_operator = None, upd_value = Some v \<rparr> fs"

text \<open>
  What the rendered component lets the user do to the list of filter rows. The dimension
  selector offers the ids of \<open>dimensions\<close>; the operator selector is rendered once the row
  has a dimension id and offers \<open>operators_of\<close>; the value input is rendered once the
  dimension is found; the add button is disabled while there is no dimension.
\<close>

inductive FilterBuilder_event ::
  "SemanticDimension list \<Rightarrow> FilterRow list \<Rightarrow> FilterRow list \<Rightarrow> bool" where
  ev_add: "dimensions \<noteq> [] \<Longrightarrow> FilterBuilder_event dimensions fs (addFilter now fs)"
| ev_remove: "f \<in> set fs \<Longrightarrow> FilterBuilder_event dimensions fs (removeFilter (row_id f) fs)"
| ev_dimension: "f \<in> set fs \<Longrightarrow> d \<in> set dimensions \<Longrightarrow>
     FilterBuilder_event dimensions fs (onDimensionChange dimensions f (dim_id d) fs)"
| ev_operator: "f \<in> set fs \<Longrightarrow> dimension_id f \<noteq> [] \<Longrightarrow> op \<in> set (operators_of dimensions f) \<Longrightarrow>
     FilterBuilder_event dimensions fs (onOperatorChange f op fs)"
| ev_value: "f \<in> set fs \<Longrightarrow> dimension_id f \<noteq> [] \<Longrightarrow>
     find (\<lambda>d. dim_id d = dimension_id f) dimensions \<noteq> None \<Longrightarrow>
     FilterBuilder_event dimensions fs (onValueChange f v fs)"

section \<open>QueryBuilder.tsx\<close>

record QueryRequest =
  entity_id :: string
  dimension_ids :: "string list"
  measure_ids :: "string list"
  req_filters :: "FilterCondition list option"
  req_limit :: "nat option"

record query_config =
  qc_dimension_ids :: "string list"
  qc_measure_ids :: "string list"
  qc_filters :: "FilterCondition list"
  qc_limit :: nat

record SavedQuery =
  sq_name :: string
  sq_entity_id :: string
  sq_query_config :: query_config

record QueryHistory =
  qh_entity_id :: string
  qh_query_config :: query_config

text \<open>The component's state: one field for each \<^verbatim>\<open>useState\<close>.\<close>

record QueryBuilderState =
  selectedEntityId :: "string option"
  selectedDimensionIds :: "string list"
  selectedMeasureIds :: "string list"
  filters :: "FilterRow list"
  saveModalVisible :: bool
  savedQueriesVisible :: bool
  historyVisible :: bool
  viewMode :: string
  chartConfig :: "ChartConfiguration option"

text \<open>
  What a handler does besides updating the state: the toast messages it shows and the
  requests it hands to the API client, in order.
\<close>

datatype effect =
    message_warning string
  | message_success string
  | message_error string
  | executeQuery QueryRequest
  | exportQuery QueryRequest string

definition toUpperCase_char :: "char \<Rightarrow> char" where
  "toUpperCase_char c =
     (let n = (of_char c :: nat) in if 97 \<le> n \<and> n \<le> 122 then char_of (n - 32) else c)"

definition toUpperCase :: "string \<Rightarrow> string" where
  "toUpperCase s = map toUpperCase_char s"

text \<open>\<^verbatim>\<open>filters.map(f => ({dimension_id, operator, value}))\<close>\<close>

definition filter_conditions :: "FilterRow list \<Rightarrow> FilterCondition list" where
  "filter_conditions fs =
     map (\<lambda>f. \<lparr> fc_dimension_id = dimension_id f, fc_operator = operator f,
                 fc_value = filter_value f \<rparr>) fs"

definition build_request :: "QueryBuilderState \<Rightarrow> string \<Rightarrow> QueryRequest" where
  "build_request s eid =
     \<lparr> entity_id = eid,
       dimension_ids = selectedDimensionIds s,
       measure_ids = selectedMeasureIds s,
       req_filters = Some (filter_conditions (filters s)),
       req_limit = Some 1000 \<rparr>"

text \<open>The guard \<^verbatim>\<open>!selectedEntityId || selectedMeasureIds.length === 0\<close>.\<close>

definition not_configured :: "QueryBuilderState \<Rightarrow> bool" where
  "not_configured s =
     (\<not> truthy_str (selectedEntityId s) \<or> length (selectedMeasureIds s) = 0)"

definition handleExecute :: "QueryBuilderState \<Rightarrow> QueryBuilderState \<times> effect list" where
  "handleExecute s =
     (if not_configured s then
        (s, [message_warning ''Please select an entity and at least one measure''])
      else (s, [executeQuery (build_request s (the (selectedEntityId s)))]))"

definition handleClear :: "QueryBuilderState \<Rightarrow> QueryBuilderState \<times> effect list" where
  "handleClear s =
     (s\<lparr> selectedEntityId := None, selectedDimensionIds := [], selectedMeasureIds := [],
         filters := [], chartConfig := None, viewMode := ''table'' \<rparr>, [])"

definition handleSaveQuery :: "QueryBuilderState \<Rightarrow> QueryBuilderState \<times> effect list" where
  "handleSaveQuery s =
     (if not_configured s then
        (s, [message_warning ''Please configure a query before saving''])
      else (s\<lparr> saveModalVisible := True \<rparr>, []))"

text \<open>
  The outcome of the awaited export call: it returns, or throws an error that may carry
  \<^verbatim>\<open>response.data.detail\<close>.
\<close>

datatype export_outcome = export_returns | export_throws "string option"

definition handleExport ::
  "QueryBuilderState \<Rightarrow> string \<Rightarrow> export_outcome \<Rightarrow> QueryBuilderState \<times> effect list" where
  "handleExport s format outcome =
     (if not_configured s then
        (s, [message_warning ''Please configure a query before exporting''])
      else
        (let request = build_request s (the (selectedEntityId s))
         in (s, [exportQuery request format,
                 (case outcome of
                    export_returns \<Rightarrow> message_success (''Exported as '' @ toUpperCase format)
                  | export_throws detail \<Rightarrow> message_error (str_or detail ''Export failed''))])))"

text \<open>The \<^verbatim>\<open>disabled\<close> property of the Execute Query and Save Query buttons.\<close>

definition execute_button_disabled :: "QueryBuilderState \<Rightarrow> bool" where
  "execute_button_disabled s = not_configured s"

text \<open>Loading a saved query or a history entry: the rows get fresh ids
  \<^verbatim>\<open>filter_<now>_<index>\<close>.\<close>

fun digits :: "nat \<Rightarrow> string" where
  "digits n = (if n < 10 then [char_of (48 + n)]
               else digits (n div 10) @ [char_of (48 + n mod 10)])"

definition loadedFilters :: "string \<Rightarrow> FilterCondition list \<Rightarrow> FilterRow list" where
  "loadedFilters now conds =
     map (\<lambda>(index, f). \<lparr> row_id = ''filter_'' @ now @ ''_'' @ digits index,
                          dimension_id = fc_dimension_id f,
                          operator = fc_operator f,
                          filter_value = fc_value f \<rparr>)
         (enumerate 0 conds)"

definition handleLoadQuery ::
  "string \<Rightarrow> SavedQuery \<Rightarrow> QueryBuilderState \<Rightarrow> QueryBuilderState \<times> effect list" where
  "handleLoadQuery now savedQuery s =
     (s\<lparr> selectedEntityId := Some (sq_entity_id savedQuery),
         selectedDimensionIds := qc_dimension_ids (sq_query_config savedQuery),
         selectedMeasureIds := qc_measure_ids (sq_query_config savedQuery),
         filters := loadedFilters now (qc_filters (sq_query_config savedQuery)) \<rparr>,
      [message_success (''Loaded query: '' @ sq_name savedQuery)])"

definition handleLoadHistory ::
  "string \<Rightarrow> QueryHistory \<Rightarrow> QueryBuilderState \<Rightarrow> QueryBuilderState \<times> effect list" where
  "handleLoadHistory now history s =
     (s\<lparr> selectedEntityId := Some (qh_entity_id history),
         selectedDimensionIds := qc_dimension_ids (qh_query_config history),
         selectedMeasureIds := qc_measure_ids (qh_query_config history),
         filters := loadedFilters now (qc_filters (qh_query_config history)) \<rparr>,
      [message_success ''Loaded query from history''])"

text \<open>
  The filter lists the component can hold: empty at first and after Clear, changed by the
  filter builder's events, or loaded from a saved query or history entry whose conditions
  have the declared type.
\<close>

inductive reachable_filters :: "FilterRow list \<Rightarrow> bool" where
  rf_init: "reachable_filters []"
| rf_event: "reachable_filters fs \<Longrightarrow> FilterBuilder_event dimensions fs fs' \<Longrightarrow>
     reachable_filters fs'"
| rf_load: "list_all (\<lambda>c. fc_operator c \<in> set FilterCondition_operators) conds \<Longrightarrow>
     reachable_filters (loadedFilters now conds)"

text \<open>The operator vocabulary of the specification's FilterCondition.\<close>

definition spec_operator_vocabulary :: "string list" where
  "spec_operator_vocabulary =
     [''=='', ''!='', ''>'', ''>='', ''<'', ''<='', ''in'', ''not in'', ''contains'',
      ''startswith'', ''endswith'', ''is null'', ''is not null'']"

text \<open>
  Well-formedness of a chart configuration over the result's columns as the specification
  words it, with "non-null" for a column that is set.
\<close>

definition claimed_well_formed :: "ChartConfiguration \<Rightarrow> string list \<Rightarrow> bool" where
  "claimed_well_formed config cols =
     (if chart_type config = Pie then
        (case category_column config of None \<Rightarrow> False | Some c \<Rightarrow> c \<in> set cols) \<and>
        (case value_column config of None \<Rightarrow> False | Some v \<Rightarrow> v \<in> set cols)
      else
        (case x_axis_column config of None \<Rightarrow> False | Some x \<Rightarrow> x \<in> set cols) \<and>
        y_axis_columns config \<noteq> [] \<and>
        list_all (\<lambda>y. y \<in> set cols) (y_axis_columns config))"

section \<open>The pipeline engine\<close>

text \<open>
  The pipeline and query execution engine is the backend of the repository. The sources at
  hand hold its guides and a clean-up script, not its code, so this part follows the
  specification's sections 3 to 7, one definition for each thing the specification names.
\<close>

subsection \<open>Data model\<close>

text \<open>Modelled from the spec: the values of a dataset's records, which may be null;
  a list is the operand of \<open>in\<close> and \<open>not in\<close>.\<close>

datatype tvalue = TNull | TNum rat | TStr string | TList "tvalue list"

text \<open>Modelled from the spec: a record of a dataset, its values by column name.\<close>

type_synonym trecord = "(string \<times> tvalue) list"

text \<open>Modelled from the spec: NamedDataset, \<open>{columns: [string], rows: [record]}\<close>.\<close>

record NamedDataset =
  ds_columns :: "string list"
  ds_rows :: "trecord list"

text \<open>Modelled from the spec: the operator vocabulary of FilterCondition.\<close>

datatype filter_operator =
    Op_eq | Op_ne | Op_gt | Op_ge | Op_lt | Op_le | Op_in | Op_not_in
  | Op_contains | Op_startswith | Op_endswith | Op_is_null | Op_is_not_null

text \<open>Modelled from the spec: FilterCondition, \<open>{column, operator, value?}\<close>; a value
  that is left out is \<open>TNull\<close>.\<close>

record Condition =
  cond_column :: string
  cond_operator :: filter_operator
  cond_value :: tvalue

text \<open>Modelled from the spec: the flat \<open>logical_operator\<close> of a Filter step.\<close>

datatype logical_operator = AND | OR

text \<open>Modelled from the spec: the aggregation functions of an Aggregate step.\<close>

datatype agg_function =
  Agg_sum | Agg_mean | Agg_median | Agg_min | Agg_max | Agg_count | Agg_std | Agg_var

text \<open>Modelled from the spec: one entry of \<open>aggregations\<close>, \<open>{column, function, alias}\<close>.\<close>

record Aggregation =
  agg_column :: string
  agg_function :: agg_function
  agg_alias :: string

text \<open>Modelled from the spec: the join types \<open>inner | left | right | outer\<close>.\<close>

datatype join_type = Join_inner | Join_left | Join_right | Join_outer

text \<open>Modelled from the spec: the per-step configuration as the closed tagged union of
  section 9, one variant for each step type. A step that is not a source names the alias
  (or aliases) it consumes.\<close>

datatype step_config =
    SourceConfig string string
  | FilterConfig string "Condition list" logical_operator
  | JoinConfig string string string string join_type string string
  | AggregateConfig string "string list" "Aggregation list"
  | SelectConfig string "string list" "(string \<times> string) list"
  | SortConfig string "string list" "bool list"
  | UnionConfig "string list" bool

text \<open>Modelled from the spec: the seven step types.\<close>

datatype step_type =
  T_source | T_filter | T_join | T_aggregate | T_select | T_sort | T_union

text \<open>Modelled from the spec: Step, \<open>{order, type, name, config, output_alias}\<close>.\<close>

record Step =
  step_order :: int
  step_name :: string
  step_config :: step_config
  output_alias :: string

text \<open>Modelled from the spec: the type of a step; with the configuration a tagged union,
  it is the tag.\<close>

fun config_type :: "step_config \<Rightarrow> step_type" where
  "config_type (SourceConfig data_source_id table_name) = T_source"
| "config_type (FilterConfig input conditions lop) = T_filter"
| "config_type (JoinConfig left_source right_source left_on right_on jt sl sr) = T_join"
| "config_type (AggregateConfig input group_by aggregations) = T_aggregate"
| "config_type (SelectConfig input cols rename) = T_select"
| "config_type (SortConfig input cols ascending) = T_sort"
| "config_type (UnionConfig sources remove_duplicates) = T_union"

text \<open>Modelled from the spec: the type of a step, read off its configuration.\<close>

definition step_type :: "Step \<Rightarrow> step_type" where
  "step_type s = config_type (step_config s)"

text \<open>Modelled from the spec: PipelineDefinition, a collection of steps with an id.\<close>

record PipelineDefinition =
  pipeline_id :: string
  steps :: "Step list"

text \<open>Modelled from the spec: the aliases a step consumes, read off its configuration.\<close>

fun consumed_aliases :: "step_config \<Rightarrow> string list" where
  "consumed_aliases (SourceConfig data_source_id table_name) = []"
| "consumed_aliases (FilterConfig input conditions lop) = [input]"
| "consumed_aliases (JoinConfig left_source right_source left_on right_on jt sl sr) =
     [left_source, right_source]"
| "consumed_aliases (AggregateConfig input group_by aggregations) = [input]"
| "consumed_aliases (SelectConfig input cols rename) = [input]"
| "consumed_aliases (SortConfig input cols ascending) = [input]"
| "consumed_aliases (UnionConfig sources remove_duplicates) = sources"

subsection \<open>Errors\<close>

text \<open>Modelled from the spec: the validator's rules of section 4.1, each with an error of
  its own.\<close>

datatype validation_error =
    Step_order_mismatch
  | First_step_not_source
  | Alias_not_found string string
  | Union_needs_two_sources string
  | Data_source_not_found string
  | Operator_invalid_for_type string string

text \<open>Modelled from the spec: the errors of section 7 that abort a run.\<close>

datatype exec_error =
    DataSourceError string
  | SchemaError string
  | ExecutionTimeout

subsection \<open>Step graph validator\<close>

text \<open>Modelled from the spec: the data type of a column as far as the operator rule needs it.\<close>

datatype column_type = Numeric_column | String_column

text \<open>Modelled from the spec: what the validator reads from its collaborators, the
  resolution of a data source id and the column types of an alias where the upstream
  schema is statically known.\<close>

record Catalog =
  ResolveDataSource :: "string \<Rightarrow> string option"
  static_type :: "string \<Rightarrow> string \<Rightarrow> column_type option"

text \<open>Modelled from the spec: "Step order values must form {0,...,N-1} with no
  duplicates/gaps".\<close>

definition order_rule :: "Step list \<Rightarrow> validation_error list" where
  "order_rule ss =
     (if sort (map step_order ss) = map int [0..<length ss] then [] else [Step_order_mismatch])"

text \<open>Modelled from the spec: "The step at order=0 must be of type source".\<close>

definition first_step_rule :: "Step list \<Rightarrow> validation_error list" where
  "first_step_rule ss =
     (if list_all (\<lambda>s. step_order s = 0 \<longrightarrow> step_type s = T_source) ss then []
      else [First_step_not_source])"

text \<open>Modelled from the spec: "each referenced alias must be the output_alias of a step
  with a strictly smaller order".\<close>

definition alias_rule :: "Step list \<Rightarrow> validation_error list" where
  "alias_rule ss =
     concat (map (\<lambda>s.
       map (\<lambda>a. Alias_not_found (step_name s) a)
         (filter (\<lambda>a. \<not> list_ex (\<lambda>t. output_alias t = a \<and> step_order t < step_order s) ss)
            (consumed_aliases (step_config s)))) ss)"

text \<open>Modelled from the spec: "join steps reference exactly two aliases; union references
  N \<ge> 2". A JoinConfig has its two aliases by construction.\<close>

definition union_rule :: "Step list \<Rightarrow> validation_error list" where
  "union_rule ss =
     concat (map (\<lambda>s. case step_config s of
                         UnionConfig sources rd \<Rightarrow>
                           (if length sources \<ge> 2 then []
                            else [Union_needs_two_sources (step_name s)])
                       | _ \<Rightarrow> []) ss)"

text \<open>Modelled from the spec: "Every data_source_id referenced by a source step must
  resolve via the DataSource collaborator".\<close>

definition data_source_rule :: "Catalog \<Rightarrow> Step list \<Rightarrow> validation_error list" where
  "data_source_rule cat ss =
     concat (map (\<lambda>s. case step_config s of
                         SourceConfig data_source_id table_name \<Rightarrow>
                           (if ResolveDataSource cat data_source_id = None
                            then [Data_source_not_found data_source_id] else [])
                       | _ \<Rightarrow> []) ss)"

text \<open>Modelled from the spec: "string ops contains/startswith/endswith invalid on numeric
  columns", checked only where the upstream schema is statically known.\<close>

definition string_operator :: "filter_operator \<Rightarrow> bool" where
  "string_operator op = (op = Op_contains \<or> op = Op_startswith \<or> op = Op_endswith)"

text \<open>Modelled from the spec: the operator rule over the filter steps of a pipeline.\<close>

definition operator_rule :: "Catalog \<Rightarrow> Step list \<Rightarrow> validation_error list" where
  "operator_rule cat ss =
     concat (map (\<lambda>s. case step_config s of
                         FilterConfig input conditions lop \<Rightarrow>
                           map (\<lambda>c. Operator_invalid_for_type (step_name s) (cond_column c))
                             (filter (\<lambda>c. string_operator (cond_operator c) \<and>
                                static_type cat input (cond_column c) = Some Numeric_column)
                                conditions)
                       | _ \<Rightarrow> []) ss)"

text \<open>Modelled from the spec: \<open>validate(pipeline) -> {valid, errors, warnings}\<close>.\<close>

record ValidationResult =
  valid :: bool
  errors :: "validation_error list"
  warnings :: "string list"

text \<open>Modelled from the spec: the validator: the errors of all rules; a pipeline is valid
  when there is none.\<close>

definition validate :: "Catalog \<Rightarrow> PipelineDefinition \<Rightarrow> ValidationResult" where
  "validate cat pipeline =
     (let errs = order_rule (steps pipeline) @ first_step_rule (steps pipeline) @
                 alias_rule (steps pipeline) @ union_rule (steps pipeline) @
                 data_source_rule cat (steps pipeline) @ operator_rule cat (steps pipeline)
      in \<lparr> valid = (errs = []), errors = errs, warnings = [] \<rparr>)"

subsection \<open>Filter step\<close>

text \<open>Modelled from the spec: "normal comparison semantics" on values. Numbers compare as
  numbers and strings by their characters, as here; a null or a value of another kind is
  neither below nor above anything.\<close>

fun string_less :: "string \<Rightarrow> string \<Rightarrow> bool" where
  "string_less [] [] = False"
| "string_less [] (y # ys) = True"
| "string_less (x # xs) [] = False"
| "string_less (x # xs) (y # ys) =
     ((of_char x :: nat) < of_char y \<or> (x = y \<and> string_less xs ys))"

text \<open>Modelled from the spec: the strict order on values.\<close>

fun value_less :: "tvalue \<Rightarrow> tvalue \<Rightarrow> bool" where
  "value_less (TNum a) (TNum b) = (a < b)"
| "value_less (TStr a) (TStr b) = string_less a b"
| "value_less _ _ = False"

text \<open>Modelled from the spec: the non-strict order on values.\<close>

fun value_less_eq :: "tvalue \<Rightarrow> tvalue \<Rightarrow> bool" where
  "value_less_eq (TNum a) (TNum b) = (a \<le> b)"
| "value_less_eq (TStr a) (TStr b) = (string_less a b \<or> a = b)"
| "value_less_eq _ _ = False"

text \<open>Modelled from the spec: \<open>contains\<close>, \<open>startswith\<close> and \<open>endswith\<close>, the case-sensitive
  substring tests on strings.\<close>

fun string_test :: "filter_operator \<Rightarrow> string \<Rightarrow> string \<Rightarrow> bool" where
  "string_test Op_startswith s p = prefix p s"
| "string_test Op_endswith s p = suffix p s"
| "string_test _ s p = sublist p s"

text \<open>Modelled from the spec: an operator applied to the value of the column and the
  condition's value. A string test on a number and a list operator without a list are a
  SchemaError.\<close>

definition eval_operator :: "string \<Rightarrow> filter_operator \<Rightarrow> tvalue \<Rightarrow> tvalue \<Rightarrow> exec_error + bool" where
  "eval_operator col op v operand =
     (case op of
        Op_eq \<Rightarrow> Inr (v = operand)
      | Op_ne \<Rightarrow> Inr (v \<noteq> operand)
      | Op_gt \<Rightarrow> Inr (value_less operand v)
      | Op_ge \<Rightarrow> Inr (value_less_eq operand v)
      | Op_lt \<Rightarrow> Inr (value_less v operand)
      | Op_le \<Rightarrow> Inr (value_less_eq v operand)
      | Op_in \<Rightarrow> (case operand of TList vs \<Rightarrow> Inr (v \<in> set vs) | _ \<Rightarrow> Inl (SchemaError col))
      | Op_not_in \<Rightarrow> (case operand of TList vs \<Rightarrow> Inr (v \<notin> set vs) | _ \<Rightarrow> Inl (SchemaError col))
      | Op_is_null \<Rightarrow> Inr (v = TNull)
      | Op_is_not_null \<Rightarrow> Inr (v \<noteq> TNull)
      | _ \<Rightarrow> (case (v, operand) of
                 (TStr s, TStr p) \<Rightarrow> Inr (string_test op s p)
               | (TNull, TStr p) \<Rightarrow> Inr False
               | _ \<Rightarrow> Inl (SchemaError col)))"

text \<open>Modelled from the spec: a condition on a record: the column is looked up, then
  the operator applied. A column that the record lacks is a SchemaError.\<close>

definition eval_condition :: "trecord \<Rightarrow> Condition \<Rightarrow> exec_error + bool" where
  "eval_condition r c =
     (case map_of r (cond_column c) of
        None \<Rightarrow> Inl (SchemaError (cond_column c))
      | Some v \<Rightarrow> eval_operator (cond_column c) (cond_operator c) v (cond_value c))"

text \<open>Modelled from the spec: all conditions of a step combined with one flat AND or OR.\<close>

fun eval_conditions :: "trecord \<Rightarrow> Condition list \<Rightarrow> logical_operator \<Rightarrow> exec_error + bool" where
  "eval_conditions r [] lop = Inr (lop = AND)"
| "eval_conditions r (c # cs) lop =
     (case eval_condition r c of
        Inl e \<Rightarrow> Inl e
      | Inr b \<Rightarrow> (case eval_conditions r cs lop of
                    Inl e \<Rightarrow> Inl e
                  | Inr bs \<Rightarrow> Inr (if lop = AND then b \<and> bs else b \<or> bs)))"

text \<open>Modelled from the spec: the rows that satisfy the conditions, in their order; an error
  on any row aborts the step.\<close>

fun filter_rows :: "Condition list \<Rightarrow> logical_operator \<Rightarrow> trecord list \<Rightarrow> exec_error + trecord list" where
  "filter_rows conds lop [] = Inr []"
| "filter_rows conds lop (r # rs) =
     (case eval_conditions r conds lop of
        Inl e \<Rightarrow> Inl e
      | Inr keep \<Rightarrow> (case filter_rows conds lop rs of
                      Inl e \<Rightarrow> Inl e
                    | Inr kept \<Rightarrow> Inr (if keep then r # kept else kept)))"

text \<open>Modelled from the spec: the Filter executor.\<close>

definition filter_step :: "Condition list \<Rightarrow> logical_operator \<Rightarrow> NamedDataset \<Rightarrow> exec_error + NamedDataset" where
  "filter_step conds lop ds =
     (case filter_rows conds lop (ds_rows ds) of
        Inl e \<Rightarrow> Inl e
      | Inr kept \<Rightarrow> Inr \<lparr> ds_columns = ds_columns ds, ds_rows = kept \<rparr>)"

subsection \<open>Aggregate step\<close>

text \<open>Modelled from the spec: the values of one record at a list of columns; a column the
  record lacks is a SchemaError.\<close>

fun values_at :: "trecord \<Rightarrow> string list \<Rightarrow> exec_error + tvalue list" where
  "values_at r [] = Inr []"
| "values_at r (c # cs) =
     (case map_of r c of
        None \<Rightarrow> Inl (SchemaError c)
      | Some v \<Rightarrow> (case values_at r cs of Inl e \<Rightarrow> Inl e | Inr vs \<Rightarrow> Inr (v # vs)))"

text \<open>Modelled from the spec: "all other functions exclude nulls from the computation":
  the numbers among the values of the aggregated column, nulls dropped. A value that is
  neither a number nor null is a SchemaError.\<close>

fun non_null_numbers :: "string \<Rightarrow> tvalue list \<Rightarrow> exec_error + rat list" where
  "non_null_numbers col [] = Inr []"
| "non_null_numbers col (TNull # vs) = non_null_numbers col vs"
| "non_null_numbers col (TNum x # vs) =
     (case non_null_numbers col vs of Inl e \<Rightarrow> Inl e | Inr xs \<Rightarrow> Inr (x # xs))"
| "non_null_numbers col (_ # vs) = Inl (SchemaError col)"

text \<open>Modelled from the spec: the aggregation functions on the numbers of a group. The
  specification does not define the standard deviation and the variance further; they
  are the parameter \<open>dispersion\<close>. An empty group of numbers has no mean, median, minimum
  or maximum: the result is null.\<close>

definition median :: "rat list \<Rightarrow> rat" where
  "median xs =
     (let s = sort xs; n = length s
      in if even n then (s ! (n div 2 - 1) + s ! (n div 2)) / 2 else s ! (n div 2))"

text \<open>Modelled from the spec: each aggregation function on the numbers of a group.\<close>

definition statistic :: "(agg_function \<Rightarrow> rat list \<Rightarrow> tvalue) \<Rightarrow> agg_function \<Rightarrow> rat list \<Rightarrow> tvalue" where
  "statistic dispersion f xs =
     (case f of
        Agg_sum \<Rightarrow> TNum (sum_list xs)
      | Agg_count \<Rightarrow> TNum (of_nat (length xs))
      | Agg_mean \<Rightarrow> (if xs = [] then TNull else TNum (sum_list xs / of_nat (length xs)))
      | Agg_median \<Rightarrow> (if xs = [] then TNull else TNum (median xs))
      | Agg_min \<Rightarrow> (if xs = [] then TNull else TNum (fold min (tl xs) (hd xs)))
      | Agg_max \<Rightarrow> (if xs = [] then TNull else TNum (fold max (tl xs) (hd xs)))
      | _ \<Rightarrow> dispersion f xs)"

text \<open>Modelled from the spec: "count includes rows with null values in the aggregated
  column; all other functions exclude nulls from the computation".\<close>

definition aggregate_values ::
  "(agg_function \<Rightarrow> rat list \<Rightarrow> tvalue) \<Rightarrow> string \<Rightarrow> agg_function \<Rightarrow> tvalue list \<Rightarrow> exec_error + tvalue" where
  "aggregate_values dispersion col f vs =
     (if f = Agg_count then Inr (TNum (of_nat (length vs)))
      else (case non_null_numbers col vs of
              Inl e \<Rightarrow> Inl e
            | Inr xs \<Rightarrow> Inr (statistic dispersion f xs)))"

text \<open>Modelled from the spec: the group-by tuple of every record, and the records of one
  group.\<close>

fun group_keys :: "string list \<Rightarrow> trecord list \<Rightarrow> exec_error + tvalue list list" where
  "group_keys group_by [] = Inr []"
| "group_keys group_by (r # rs) =
     (case values_at r group_by of
        Inl e \<Rightarrow> Inl e
      | Inr k \<Rightarrow> (case group_keys group_by rs of Inl e \<Rightarrow> Inl e | Inr ks \<Rightarrow> Inr (k # ks)))"

text \<open>Modelled from the spec: the records of the group with a given group-by tuple.\<close>

definition group_of :: "string list \<Rightarrow> tvalue list \<Rightarrow> trecord list \<Rightarrow> trecord list" where
  "group_of group_by k rs = filter (\<lambda>r. values_at r group_by = Inr k) rs"

text \<open>Modelled from the spec: the aggregated columns of one group, one for each entry of
  \<open>aggregations\<close>, named by its alias.\<close>

fun aggregate_group ::
  "(agg_function \<Rightarrow> rat list \<Rightarrow> tvalue) \<Rightarrow> Aggregation list \<Rightarrow> trecord list \<Rightarrow> exec_error + trecord" where
  "aggregate_group dispersion [] grp = Inr []"
| "aggregate_group dispersion (a # as) grp =
     (case group_keys [agg_column a] grp of
        Inl e \<Rightarrow> Inl e
      | Inr cols \<Rightarrow>
          (case aggregate_values dispersion (agg_column a) (agg_function a) (concat cols) of
             Inl e \<Rightarrow> Inl e
           | Inr v \<Rightarrow> (case aggregate_group dispersion as grp of
                         Inl e \<Rightarrow> Inl e
                       | Inr rest \<Rightarrow> Inr ((agg_alias a, v) # rest))))"

text \<open>Modelled from the spec: one output record for each group-by tuple: the group-by
  columns, then the aggregated columns.\<close>

fun aggregate_groups ::
  "(agg_function \<Rightarrow> rat list \<Rightarrow> tvalue) \<Rightarrow> string list \<Rightarrow> Aggregation list \<Rightarrow> trecord list
     \<Rightarrow> tvalue list list \<Rightarrow> exec_error + trecord list" where
  "aggregate_groups dispersion group_by aggs rs [] = Inr []"
| "aggregate_groups dispersion group_by aggs rs (k # ks) =
     (case aggregate_group dispersion aggs (group_of group_by k rs) of
        Inl e \<Rightarrow> Inl e
      | Inr cells \<Rightarrow> (case aggregate_groups dispersion group_by aggs rs ks of
                       Inl e \<Rightarrow> Inl e
                     | Inr out \<Rightarrow> Inr ((zip group_by k @ cells) # out)))"

text \<open>Modelled from the spec: the Aggregate executor, one output row for each distinct
  group-by tuple present in the input, in the order of first appearance.\<close>

definition aggregate_step ::
  "(agg_function \<Rightarrow> rat list \<Rightarrow> tvalue) \<Rightarrow> string list \<Rightarrow> Aggregation list \<Rightarrow> NamedDataset
     \<Rightarrow> exec_error + NamedDataset" where
  "aggregate_step dispersion group_by aggs ds =
     (case group_keys group_by (ds_rows ds) of
        Inl e \<Rightarrow> Inl e
      | Inr ks \<Rightarrow>
          (case aggregate_groups dispersion group_by aggs (ds_rows ds)
                  (rev (remdups (rev ks))) of
             Inl e \<Rightarrow> Inl e
           | Inr out \<Rightarrow> Inr \<lparr> ds_columns = group_by @ map agg_alias aggs, ds_rows = out \<rparr>))"

subsection \<open>Backend adapter and step executors\<close>

text \<open>Modelled from the spec: the options of ExecutePipeline, \<open>{limit, preview_mode}\<close>.\<close>

record ExecOptions =
  opt_limit :: "nat option"
  preview_mode :: bool

text \<open>Modelled from the spec: the Backend Adapter of section 4.4, the operations that
  reach a data source or that no statement here depends on. Each may fail with an error of
  section 7. \<open>dispersion\<close> computes the standard deviation and the variance.\<close>

record BackendAdapter =
  load_source :: "string \<Rightarrow> string \<Rightarrow> ExecOptions \<Rightarrow> exec_error + NamedDataset"
  apply_join :: "step_config \<Rightarrow> NamedDataset \<Rightarrow> NamedDataset \<Rightarrow> exec_error + NamedDataset"
  apply_select :: "step_config \<Rightarrow> NamedDataset \<Rightarrow> exec_error + NamedDataset"
  apply_sort :: "step_config \<Rightarrow> NamedDataset \<Rightarrow> exec_error + NamedDataset"
  apply_union :: "step_config \<Rightarrow> NamedDataset list \<Rightarrow> exec_error + NamedDataset"
  dispersion :: "agg_function \<Rightarrow> rat list \<Rightarrow> tvalue"

text \<open>Modelled from the spec: the map from alias to NamedDataset that a run maintains.\<close>

type_synonym alias_map = "(string \<times> NamedDataset) list"

text \<open>Modelled from the spec: resolving the aliases a step consumes in the alias map.\<close>

fun resolve_aliases :: "alias_map \<Rightarrow> string list \<Rightarrow> exec_error + NamedDataset list" where
  "resolve_aliases m [] = Inr []"
| "resolve_aliases m (a # as) =
     (case map_of m a of
        None \<Rightarrow> Inl (SchemaError a)
      | Some ds \<Rightarrow> (case resolve_aliases m as of Inl e \<Rightarrow> Inl e | Inr dss \<Rightarrow> Inr (ds # dss)))"

text \<open>Modelled from the spec: \<open>execute(step, inputs) -> NamedDataset\<close>, dispatched on the
  step's configuration.\<close>

definition execute_step ::
  "BackendAdapter \<Rightarrow> ExecOptions \<Rightarrow> Step \<Rightarrow> alias_map \<Rightarrow> exec_error + NamedDataset" where
  "execute_step backend opts s inputs =
     (case resolve_aliases inputs (consumed_aliases (step_config s)) of
        Inl e \<Rightarrow> Inl e
      | Inr dss \<Rightarrow>
          (case step_config s of
             SourceConfig data_source_id table_name \<Rightarrow>
               load_source backend data_source_id table_name opts
           | FilterConfig input conditions lop \<Rightarrow> filter_step conditions lop (hd dss)
           | AggregateConfig input group_by aggs \<Rightarrow>
               aggregate_step (dispersion backend) group_by aggs (hd dss)
           | JoinConfig l r lo ro jt sl sr \<Rightarrow>
               apply_join backend (step_config s) (hd dss) (hd (tl dss))
           | SelectConfig input cols rename \<Rightarrow> apply_select backend (step_config s) (hd dss)
           | SortConfig input cols ascending \<Rightarrow> apply_sort backend (step_config s) (hd dss)
           | UnionConfig sources rd \<Rightarrow> apply_union backend (step_config s) dss))"

subsection \<open>Execution orchestrator\<close>

text \<open>Modelled from the spec: the status of a run.\<close>

datatype run_status = Queued | Running | Success | Failed | Partial

text \<open>Modelled from the spec: one entry of a run's \<open>execution_log\<close>, a step with its error if
  it failed.\<close>

record LogEntry =
  log_order :: int
  log_name :: string
  log_error :: "string option"

text \<open>Modelled from the spec: PipelineRun, \<open>{id, pipeline_id, status, started_at, completed_at,
  rows_processed, execution_log, error_message}\<close>.\<close>

record PipelineRun =
  run_id :: nat
  run_pipeline_id :: string
  run_status :: run_status
  started_at :: nat
  completed_at :: "nat option"
  rows_processed :: nat
  execution_log :: "LogEntry list"
  error_message :: "string option"

text \<open>Modelled from the spec: the human-readable message of an error that aborts a run;
  it names the failing step's order and name.\<close>

fun describe_error :: "exec_error \<Rightarrow> string" where
  "describe_error (DataSourceError m) = ''Data source error: '' @ m"
| "describe_error (SchemaError c) = ''Column not found: '' @ c"
| "describe_error ExecutionTimeout = ''Execution timed out''"

text \<open>Modelled from the spec: the error message of a failed run, with the failing
  step's order and name.\<close>

definition failure_message :: "Step \<Rightarrow> exec_error \<Rightarrow> string" where
  "failure_message s e =
     ''Step '' @ digits (nat (step_order s)) @ '' ('' @ step_name s @ ''): '' @ describe_error e"

text \<open>Modelled from the spec: the steps run one after the other, each output stored under
  its alias; the first failure aborts the rest. The result is the execution log and either
  the failing step with its error or the output of the last step.\<close>

fun run_steps ::
  "BackendAdapter \<Rightarrow> ExecOptions \<Rightarrow> Step list \<Rightarrow> alias_map \<Rightarrow> NamedDataset \<Rightarrow> LogEntry list
     \<Rightarrow> LogEntry list \<times> ((Step \<times> exec_error) + NamedDataset)" where
  "run_steps backend opts [] inputs latest elog = (elog, Inr latest)"
| "run_steps backend opts (s # ss) inputs latest elog =
     (case execute_step backend opts s inputs of
        Inl e \<Rightarrow>
          (elog @ [\<lparr> log_order = step_order s, log_name = step_name s,
                    log_error = Some (describe_error e) \<rparr>], Inl (s, e))
      | Inr ds \<Rightarrow>
          run_steps backend opts ss ((output_alias s, ds) # inputs) ds
            (elog @ [\<lparr> log_order = step_order s, log_name = step_name s, log_error = None \<rparr>]))"

text \<open>Modelled from the spec: \<open>CreateRun(pipeline_id) -> run_id\<close> and
  \<open>UpdateRun(run_id, status, rows_processed, execution_time, data|error)\<close> on the stored
  run records; a run's id is its position.\<close>

definition CreateRun :: "PipelineRun list \<Rightarrow> string \<Rightarrow> nat \<Rightarrow> PipelineRun list \<times> nat" where
  "CreateRun runs pid started =
     (runs @ [\<lparr> run_id = length runs, run_pipeline_id = pid, run_status = Running,
                started_at = started, completed_at = None, rows_processed = 0,
                execution_log = [], error_message = None \<rparr>], length runs)"

text \<open>Modelled from the spec: \<open>UpdateRun\<close>, the one mutation of a run record, at completion.\<close>

definition UpdateRun ::
  "PipelineRun list \<Rightarrow> nat \<Rightarrow> run_status \<Rightarrow> nat \<Rightarrow> nat \<Rightarrow> LogEntry list \<Rightarrow> string option
     \<Rightarrow> PipelineRun list" where
  "UpdateRun runs rid status nrows completed elog err =
     (if rid < length runs then
        runs[rid := (runs ! rid)\<lparr> run_status := status, completed_at := Some completed,
                                  rows_processed := nrows, execution_log := elog,
                                  error_message := err \<rparr>]
      else runs)"

text \<open>Modelled from the spec: the result of ExecutePipeline,
  \<open>{run_id, status, rows_processed, execution_time_seconds, data, error_message}\<close>.\<close>

record ExecuteResponse =
  resp_run_id :: nat
  resp_status :: run_status
  resp_rows_processed :: nat
  resp_execution_time :: nat
  resp_data :: "NamedDataset option"
  resp_error_message :: "string option"

text \<open>Modelled from the spec: ExecutePipeline on the snapshot of a pipeline. Validation
  runs first and its errors are returned before any run is created; otherwise a run is
  created, the steps are executed by ascending order, and the run is completed as success
  or as failed. The clock readings at start and completion are arguments.\<close>

definition ExecutePipeline ::
  "Catalog \<Rightarrow> BackendAdapter \<Rightarrow> nat \<Rightarrow> nat \<Rightarrow> PipelineRun list \<Rightarrow> PipelineDefinition \<Rightarrow> ExecOptions
     \<Rightarrow> PipelineRun list \<times> (validation_error list + ExecuteResponse)" where
  "ExecutePipeline cat backend started completed runs pipeline opts =
     (let v = validate cat pipeline
      in if \<not> valid v then (runs, Inl (errors v))
         else
           (case CreateRun runs (pipeline_id pipeline) started of
              (runs1, rid) \<Rightarrow>
                (case run_steps backend opts (sort_key step_order (steps pipeline)) []
                        \<lparr> ds_columns = [], ds_rows = [] \<rparr> [] of
                   (elog, Inl (s, e)) \<Rightarrow>
                     (UpdateRun runs1 rid Failed 0 completed elog (Some (failure_message s e)),
                      Inr \<lparr> resp_run_id = rid, resp_status = Failed, resp_rows_processed = 0,
                            resp_execution_time = completed - started, resp_data = None,
                            resp_error_message = Some (failure_message s e) \<rparr>)
                 | (elog, Inr ds) \<Rightarrow>
                     (UpdateRun runs1 rid Success (length (ds_rows ds)) completed elog None,
                      Inr \<lparr> resp_run_id = rid, resp_status = Success,
                            resp_rows_processed = length (ds_rows ds),
                            resp_execution_time = completed - started, resp_data = Some ds,
                            resp_error_message = None \<rparr>))))"

text \<open>Modelled from the spec: a delivery failure reported by the scheduling collaborator
  against a run whose data stage succeeded; the run becomes partial.\<close>

definition report_delivery_failure :: "PipelineRun list \<Rightarrow> nat \<Rightarrow> string \<Rightarrow> PipelineRun list" where
  "report_delivery_failure runs rid detail =
     (if rid < length runs \<and> run_status (runs ! rid) = Success then
        runs[rid := (runs ! rid)\<lparr> run_status := Partial,
                                  error_message := Some (''Delivery failed: '' @ detail) \<rparr>]
      else runs)"

text \<open>Modelled from the spec: the terminal statuses of the run state machine,
  \<open>success\<close>, \<open>failed\<close> and \<open>partial\<close>.\<close>

definition terminal :: "run_status \<Rightarrow> bool" where
  "terminal st = (st = Success \<or> st = Failed \<or> st = Partial)"

section \<open>Properties of the query builder\<close>

subsection \<open>Filter operators of numeric dimensions\<close>

lemma OPERATORS_BY_TYPE_subset:
  "set (OPERATORS_BY_TYPE t) \<subseteq> set FilterCondition_operators"
  by (cases t) (simp_all add: FilterCondition_operators_def)

lemma OPERATORS_BY_TYPE_first: "OPERATORS_BY_TYPE t ! 0 = ''=''"
  by (cases t) simp_all

lemma OPERATORS_BY_TYPE_has_eq: "''='' \<in> set (OPERATORS_BY_TYPE t)"
  by (cases t) simp_all

text \<open>
  Claim C1. For a dimension whose \<open>data_type\<close> is \<open>integer\<close> or \<open>decimal\<close>, the operator
  list is exactly the comparison, list-membership and null-check operators and holds no
  string operator; and selecting that dimension in a filter row leaves every row the update
  reaches with the selected dimension, with that list offered by its operator selector, and
  with an operator that is a member of the list.
\<close>

theorem numeric_dimension_operators:
  "data_type dimension = DT_integer \<or> data_type dimension = DT_decimal \<Longrightarrow>
   find (\<lambda>d. dim_id d = dimensionId) dimensions = Some dimension \<Longrightarrow>
     OPERATORS_BY_TYPE (data_type dimension) =
       [''='', ''!='', ''>'', ''<'', ''>='', ''<='', ''IN'', ''NOT IN'', ''IS NULL'', ''IS NOT NULL''] \<and>
     set (OPERATORS_BY_TYPE (data_type dimension)) \<inter>
       {''LIKE'', ''contains'', ''startswith'', ''endswith''} = {} \<and>
     list_all (\<lambda>g. row_id g = row_id f \<longrightarrow>
                 dimension_id g = dimensionId \<and>
                 operators_of dimensions g = OPERATORS_BY_TYPE (data_type dimension) \<and>
                 operator g \<in> set (operators_of dimensions g))
       (onDimensionChange dimensions f dimensionId fs)"
proof -
  assume num: "data_type dimension = DT_integer \<or> data_type dimension = DT_decimal"
    and fnd: "find (\<lambda>d. dim_id d = dimensionId) dimensions = Some dimension"
  have l: "OPERATORS_BY_TYPE (data_type dimension) =
       [''='', ''!='', ''>'', ''<'', ''>='', ''<='', ''IN'', ''NOT IN'', ''IS NULL'', ''IS NOT NULL'']"
    using num by auto
  have d: "set (OPERATORS_BY_TYPE (data_type dimension)) \<inter>
       {''LIKE'', ''contains'', ''startswith'', ''endswith''} = {}"
    by (simp add: l)
  have r: "list_all (\<lambda>g. row_id g = row_id f \<longrightarrow>
                 dimension_id g = dimensionId \<and>
                 operators_of dimensions g = OPERATORS_BY_TYPE (data_type dimension) \<and>
                 operator g \<in> set (operators_of dimensions g))
       (onDimensionChange dimensions f dimensionId fs)"
    using fnd
    by (auto simp: list_all_iff onDimensionChange_def updateFilter_def merge_updates_def
          operators_of_def OPERATORS_BY_TYPE_first OPERATORS_BY_TYPE_has_eq)
  show ?thesis using l d r by blast
qed

theorem numeric_dimension_operators_witness:
  "(data_type \<lparr> dim_id = ''d1'', dim_name = ''Quantity'', sql_column = ''quantity'',
                data_type = DT_integer \<rparr> = DT_integer \<or>
    data_type \<lparr> dim_id = ''d1'', dim_name = ''Quantity'', sql_column = ''quantity'',
                data_type = DT_integer \<rparr> = DT_decimal) \<and>
   find (\<lambda>d. dim_id d = ''d1'')
     [\<lparr> dim_id = ''d0'', dim_name = ''Region'', sql_column = ''region'', data_type = DT_string \<rparr>,
      \<lparr> dim_id = ''d1'', dim_name = ''Quantity'', sql_column = ''quantity'',
        data_type = DT_integer \<rparr>] =
     Some \<lparr> dim_id = ''d1'', dim_name = ''Quantity'', sql_column = ''quantity'',
            data_type = DT_integer \<rparr> \<and>
   onDimensionChange
     [\<lparr> dim_id = ''d0'', dim_name = ''Region'', sql_column = ''region'', data_type = DT_string \<rparr>,
      \<lparr> dim_id = ''d1'', dim_name = ''Quantity'', sql_column = ''quantity'',
        data_type = DT_integer \<rparr>]
     \<lparr> row_id = ''filter_7'', dimension_id = ''d0'', operator = ''LIKE'',
       filter_value = JStr ''%a%'' \<rparr>
     ''d1''
     [\<lparr> row_id = ''filter_7'', dimension_id = ''d0'', operator = ''LIKE'',
        filter_value = JStr ''%a%'' \<rparr>] =
     [\<lparr> row_id = ''filter_7'', dimension_id = ''d1'', operator = ''='', filter_value = JNull \<rparr>] \<and>
   ''='' \<in> set (OPERATORS_BY_TYPE DT_integer) \<and> ''LIKE'' \<notin> set (OPERATORS_BY_TYPE DT_integer)"
  using numeric_dimension_operators [of
     "\<lparr> dim_id = ''d1'', dim_name = ''Quantity'', sql_column = ''quantity'',
        data_type = DT_integer \<rparr>"
     "''d1''"
     "[\<lparr> dim_id = ''d0'', dim_name = ''Region'', sql_column = ''region'', data_type = DT_string \<rparr>,
      \<lparr> dim_id = ''d1'', dim_name = ''Quantity'', sql_column = ''quantity'',
        data_type = DT_integer \<rparr>]"
     "\<lparr> row_id = ''filter_7'', dimension_id = ''d0'', operator = ''LIKE'',
       filter_value = JStr ''%a%'' \<rparr>"
     "[\<lparr> row_id = ''filter_7'', dimension_id = ''d0'', operator = ''LIKE'',
        filter_value = JStr ''%a%'' \<rparr>]"]
  by (simp add: onDimensionChange_def updateFilter_def merge_updates_def)

subsection \<open>The operator vocabulary of filter conditions\<close>

lemma operators_of_subset: "set (operators_of dimensions f) \<subseteq> set FilterCondition_operators"
  using OPERATORS_BY_TYPE_subset by (auto simp: operators_of_def split: option.splits)

lemma eq_in_vocabulary: "''='' \<in> set FilterCondition_operators"
  by (simp add: FilterCondition_operators_def)

lemma updateFilter_operators:
  assumes "\<forall>f \<in> set fs. operator f \<in> set FilterCondition_operators"
    and "case upd_operator u of None \<Rightarrow> True | Some op \<Rightarrow> op \<in> set FilterCondition_operators"
  shows "\<forall>f \<in> set (updateFilter fid u fs). operator f \<in> set FilterCondition_operators"
  using assms by (auto simp: updateFilter_def merge_updates_def split: option.splits)

lemma FilterBuilder_event_operators:
  assumes "FilterBuilder_event dimensions fs fs'"
    and "\<forall>f \<in> set fs. operator f \<in> set FilterCondition_operators"
  shows "\<forall>f \<in> set fs'. operator f \<in> set FilterCondition_operators"
  using assms
proof (cases rule: FilterBuilder_event.cases)
  case (ev_add now)
  with assms(2) show ?thesis by (simp add: addFilter_def eq_in_vocabulary)
next
  case (ev_remove f)
  with assms(2) show ?thesis by (simp add: removeFilter_def)
next
  case (ev_dimension f d)
  have "case find (\<lambda>x. dim_id x = dim_id d) dimensions of
          Some x \<Rightarrow> OPERATORS_BY_TYPE (data_type x) ! 0 \<in> set FilterCondition_operators
        | None \<Rightarrow> ''='' \<in> set FilterCondition_operators"
    by (simp add: OPERATORS_BY_TYPE_first eq_in_vocabulary split: option.splits)
  then show ?thesis
    unfolding ev_dimension onDimensionChange_def Let_def
    by (intro updateFilter_operators [OF assms(2)]) (simp split: option.splits)
next
  case (ev_operator f op)
  then have "op \<in> set FilterCondition_operators" using operators_of_subset by blast
  then show ?thesis
    unfolding ev_operator onOperatorChange_def
    by (intro updateFilter_operators [OF assms(2)]) simp
next
  case (ev_value f v)
  show ?thesis
    unfolding ev_value onValueChange_def
    by (intro updateFilter_operators [OF assms(2)]) simp
qed

lemma loadedFilters_operators:
  "list_all (\<lambda>c. fc_operator c \<in> set FilterCondition_operators) conds \<Longrightarrow>
   \<forall>f \<in> set (loadedFilters now conds). operator f \<in> set FilterCondition_operators"
  by (auto simp: loadedFilters_def list_all_iff in_set_enumerate_eq)

lemma reachable_filters_operators:
  "reachable_filters fs \<Longrightarrow> \<forall>f \<in> set fs. operator f \<in> set FilterCondition_operators"
proof (induction rule: reachable_filters.induct)
  case rf_init
  show ?case by simp
next
  case (rf_event fs dimensions fs')
  then show ?case using FilterBuilder_event_operators by blast
next
  case (rf_load conds now)
  then show ?case by (rule loadedFilters_operators)
qed

lemma reachable_addFilter:
  "reachable_filters (addFilter ''0'' [])"
proof -
  let ?d = "\<lparr> dim_id = ''d0'', dim_name = ''Region'', sql_column = ''region'',
               data_type = DT_string \<rparr>"
  have "FilterBuilder_event [?d] [] (addFilter ''0'' [])" by (rule ev_add) simp
  with rf_init show ?thesis by (rule rf_event)
qed

text \<open>
  Claim C2, as amended. Every filter condition built from a list of filter rows that the
  query builder can hold (rows added and edited through the filter builder, or loaded from
  a saved query or history entry of the declared type) carries an operator of the program's
  own vocabulary \<open>=, !=, >, <, >=, <=, IN, NOT IN, LIKE, IS NULL, IS NOT NULL\<close>, which is
  also the set of operators that have a display label.
\<close>

theorem filter_condition_operators:
  "reachable_filters fs \<Longrightarrow>
     list_all (\<lambda>c. fc_operator c \<in> set FilterCondition_operators) (filter_conditions fs) \<and>
     set FilterCondition_operators = fst ` set OPERATOR_LABELS"
proof -
  assume "reachable_filters fs"
  then have "\<forall>f \<in> set fs. operator f \<in> set FilterCondition_operators"
    by (rule reachable_filters_operators)
  then have a: "list_all (\<lambda>c. fc_operator c \<in> set FilterCondition_operators) (filter_conditions fs)"
    by (simp add: filter_conditions_def list_all_iff)
  have b: "set FilterCondition_operators = fst ` set OPERATOR_LABELS"
    by (simp add: FilterCondition_operators_def OPERATOR_LABELS_def)
  show ?thesis using a b by simp
qed

theorem filter_condition_operators_witness:
  "reachable_filters (addFilter ''0'' []) \<and>
   filter_conditions (addFilter ''0'' []) =
     [\<lparr> fc_dimension_id = [], fc_operator = ''='', fc_value = JNull \<rparr>] \<and>
   ''='' \<in> set FilterCondition_operators"
proof -
  have r: "reachable_filters (addFilter ''0'' [])" by (rule reachable_addFilter)
  have "list_all (\<lambda>c. fc_operator c \<in> set FilterCondition_operators)
          (filter_conditions (addFilter ''0'' []))"
    using filter_condition_operators [OF r] by blast
  then have "''='' \<in> set FilterCondition_operators"
    by (simp add: filter_conditions_def addFilter_def)
  with r show ?thesis by (simp add: filter_conditions_def addFilter_def)
qed

text \<open>
  Claim C2 as stated fails: the row that Add Filter creates carries the operator \<open>=\<close>,
  which is not in the specification's vocabulary (that one has \<open>==\<close>).
\<close>

theorem filter_condition_operators_counterexample:
  "reachable_filters (addFilter ''0'' []) \<and>
   filter_conditions (addFilter ''0'' []) =
     [\<lparr> fc_dimension_id = [], fc_operator = ''='', fc_value = JNull \<rparr>] \<and>
   ''='' \<notin> set spec_operator_vocabulary"
  using reachable_addFilter
  by (simp add: filter_conditions_def addFilter_def spec_operator_vocabulary_def)

subsection \<open>A query needs an entity and a measure\<close>

text \<open>
  Claim C3. With an empty list of selected measures, Execute, Save and Export each only
  show a warning and leave the state as it is, and the Execute button is disabled; a
  request reaches the execution or export API only when an entity is selected (a non-empty
  id) and the request's measure list, which is the selected one, is non-empty; the save
  dialog opens only under the same condition.
\<close>

theorem query_requires_measure:
  "(selectedMeasureIds s = [] \<longrightarrow>
      handleExecute s =
        (s, [message_warning ''Please select an entity and at least one measure'']) \<and>
      handleSaveQuery s = (s, [message_warning ''Please configure a query before saving'']) \<and>
      handleExport s format outcome =
        (s, [message_warning ''Please configure a query before exporting'']) \<and>
      execute_button_disabled s) \<and>
   (executeQuery request \<in> set (snd (handleExecute s)) \<longrightarrow>
      selectedEntityId s = Some (entity_id request) \<and> entity_id request \<noteq> [] \<and>
      measure_ids request = selectedMeasureIds s \<and> measure_ids request \<noteq> []) \<and>
   (exportQuery request format \<in> set (snd (handleExport s format outcome)) \<longrightarrow>
      selectedEntityId s = Some (entity_id request) \<and> entity_id request \<noteq> [] \<and>
      measure_ids request = selectedMeasureIds s \<and> measure_ids request \<noteq> []) \<and>
   (saveModalVisible (fst (handleSaveQuery s)) \<and> \<not> saveModalVisible s \<longrightarrow>
      truthy_str (selectedEntityId s) \<and> selectedMeasureIds s \<noteq> [])"
proof -
  have a: "selectedMeasureIds s = [] \<longrightarrow>
      handleExecute s =
        (s, [message_warning ''Please select an entity and at least one measure'']) \<and>
      handleSaveQuery s = (s, [message_warning ''Please configure a query before saving'']) \<and>
      handleExport s format outcome =
        (s, [message_warning ''Please configure a query before exporting'']) \<and>
      execute_button_disabled s"
    by (simp add: handleExecute_def handleSaveQuery_def handleExport_def not_configured_def
          execute_button_disabled_def)
  have b: "executeQuery request \<in> set (snd (handleExecute s)) \<longrightarrow>
      selectedEntityId s = Some (entity_id request) \<and> entity_id request \<noteq> [] \<and>
      measure_ids request = selectedMeasureIds s \<and> measure_ids request \<noteq> []"
    by (cases "selectedEntityId s")
       (auto simp: handleExecute_def not_configured_def build_request_def split: if_splits)
  have c: "exportQuery request format \<in> set (snd (handleExport s format outcome)) \<longrightarrow>
      selectedEntityId s = Some (entity_id request) \<and> entity_id request \<noteq> [] \<and>
      measure_ids request = selectedMeasureIds s \<and> measure_ids request \<noteq> []"
    by (cases "selectedEntityId s"; cases outcome)
       (auto simp: handleExport_def not_configured_def build_request_def Let_def
             split: if_splits)
  have d: "saveModalVisible (fst (handleSaveQuery s)) \<and> \<not> saveModalVisible s \<longrightarrow>
      truthy_str (selectedEntityId s) \<and> selectedMeasureIds s \<noteq> []"
    by (auto simp: handleSaveQuery_def not_configured_def split: if_splits)
  show ?thesis using a b c d by blast
qed

theorem query_requires_measure_witness:
  "handleExecute
     \<lparr> selectedEntityId = Some ''e1'', selectedDimensionIds = [''d1''], selectedMeasureIds = [],
       filters = [], saveModalVisible = False, savedQueriesVisible = False,
       historyVisible = False, viewMode = ''table'', chartConfig = None \<rparr> =
     (\<lparr> selectedEntityId = Some ''e1'', selectedDimensionIds = [''d1''], selectedMeasureIds = [],
        filters = [], saveModalVisible = False, savedQueriesVisible = False,
        historyVisible = False, viewMode = ''table'', chartConfig = None \<rparr>,
      [message_warning ''Please select an entity and at least one measure'']) \<and>
   executeQuery \<lparr> entity_id = ''e1'', dimension_ids = [''d1''], measure_ids = [''m1''],
                  req_filters = Some [], req_limit = Some 1000 \<rparr>
     \<in> set (snd (handleExecute
          \<lparr> selectedEntityId = Some ''e1'', selectedDimensionIds = [''d1''],
            selectedMeasureIds = [''m1''], filters = [], saveModalVisible = False,
            savedQueriesVisible = False, historyVisible = False, viewMode = ''table'',
            chartConfig = None \<rparr>)) \<and>
   saveModalVisible (fst (handleSaveQuery
          \<lparr> selectedEntityId = Some ''e1'', selectedDimensionIds = [''d1''],
            selectedMeasureIds = [''m1''], filters = [], saveModalVisible = False,
            savedQueriesVisible = False, historyVisible = False, viewMode = ''table'',
            chartConfig = None \<rparr>))"
  using query_requires_measure [of
     "\<lparr> selectedEntityId = Some ''e1'', selectedDimensionIds = [''d1''], selectedMeasureIds = [],
       filters = [], saveModalVisible = False, savedQueriesVisible = False,
       historyVisible = False, viewMode = ''table'', chartConfig = None \<rparr>" "''csv''"
     export_returns
     "\<lparr> entity_id = ''e1'', dimension_ids = [''d1''], measure_ids = [''m1''],
        req_filters = Some [], req_limit = Some 1000 \<rparr>"]
  by (simp add: handleExecute_def handleSaveQuery_def not_configured_def build_request_def
        filter_conditions_def)

section \<open>Properties of the chart utilities\<close>

subsection \<open>validateChartConfig\<close>

lemma validate_y_columns_None: "(validate_y_columns ys cols = None) = (set ys \<subseteq> set cols)"
  by (induction ys) simp_all

lemma validate_y_columns_nonempty: "validate_y_columns ys cols = Some m \<Longrightarrow> m \<noteq> []"
  by (induction ys) (auto split: if_splits)

lemma validateChartConfig_nonempty: "validateChartConfig config cols = Some m \<Longrightarrow> m \<noteq> []"
  by (auto simp: validateChartConfig_def split: if_splits dest: validate_y_columns_nonempty)

lemma validateChartConfig_None:
  "(validateChartConfig config cols = None) =
     (if chart_type config = Pie then
        (case category_column config of None \<Rightarrow> False | Some c \<Rightarrow> c \<noteq> [] \<and> c \<in> set cols) \<and>
        (case value_column config of None \<Rightarrow> False | Some v \<Rightarrow> v \<noteq> [] \<and> v \<in> set cols)
      else
        (case x_axis_column config of None \<Rightarrow> False | Some x \<Rightarrow> x \<noteq> [] \<and> x \<in> set cols) \<and>
        y_axis_columns config \<noteq> [] \<and>
        list_all (\<lambda>y. y \<in> set cols) (y_axis_columns config))"
  by (auto simp: validateChartConfig_def validate_y_columns_None list_all_iff
           split: option.splits)

lemma chartOption_built:
  "(chartOption js dat config chartType \<noteq> None) = (validateChartConfig config (columns dat) = None)"
proof (cases "validateChartConfig config (columns dat)")
  case None
  then show ?thesis by (simp add: chartOption_def validationError_def)
next
  case (Some m)
  then have "m \<noteq> []" by (rule validateChartConfig_nonempty)
  with Some show ?thesis by (simp add: chartOption_def validationError_def)
qed

text \<open>
  Claim C8, as amended. \<open>validateChartConfig\<close> returns null exactly when, for a pie chart,
  the category and the value column are both set to a non-empty name that is among the
  columns, and for any other chart type the x-axis column is set to a non-empty name among
  the columns, there is at least one y-axis column and every y-axis column is among the
  columns; and the chart component builds an option exactly when the result is null.
\<close>

theorem validateChartConfig_null_iff:
  "((validateChartConfig config cols = None) =
     (if chart_type config = Pie then
        (case category_column config of None \<Rightarrow> False | Some c \<Rightarrow> c \<noteq> [] \<and> c \<in> set cols) \<and>
        (case value_column config of None \<Rightarrow> False | Some v \<Rightarrow> v \<noteq> [] \<and> v \<in> set cols)
      else
        (case x_axis_column config of None \<Rightarrow> False | Some x \<Rightarrow> x \<noteq> [] \<and> x \<in> set cols) \<and>
        y_axis_columns config \<noteq> [] \<and>
        list_all (\<lambda>y. y \<in> set cols) (y_axis_columns config))) \<and>
   ((chartOption js dat config chartType \<noteq> None) =
      (validateChartConfig config (columns dat) = None))"
  using validateChartConfig_None [of config cols] chartOption_built [of js dat config chartType]
  by blast

theorem validateChartConfig_null_iff_witness:
  "validateChartConfig
     \<lparr> chart_type = Bar, x_axis_column = Some ''region'', y_axis_columns = [''total''],
       category_column = None, value_column = None,
       sort_order = None, sort_by = None, color_mode = None, conditional_colors = None \<rparr>
     [''region'', ''total''] = None \<and>
   validateChartConfig
     \<lparr> chart_type = Bar, x_axis_column = Some ''region'', y_axis_columns = [''total'', ''x''],
       category_column = None, value_column = None,
       sort_order = None, sort_by = None, color_mode = None, conditional_colors = None \<rparr>
     [''region'', ''total''] \<noteq> None"
  using validateChartConfig_null_iff [of
     "\<lparr> chart_type = Bar, x_axis_column = Some ''region'', y_axis_columns = [''total''],
       category_column = None, value_column = None,
       sort_order = None, sort_by = None, color_mode = None, conditional_colors = None \<rparr>"
     "[''region'', ''total'']"]
    validateChartConfig_null_iff [of
     "\<lparr> chart_type = Bar, x_axis_column = Some ''region'', y_axis_columns = [''total'', ''x''],
       category_column = None, value_column = None,
       sort_order = None, sort_by = None, color_mode = None, conditional_colors = None \<rparr>"
     "[''region'', ''total'']"]
  by simp

text \<open>
  Claim C8 as stated fails where a result column has the empty name: a pie configuration
  whose category column is the empty string, over columns that contain it, is well-formed
  in the claim's sense ("non-null and a member") and is rejected all the same.
\<close>

theorem validateChartConfig_counterexample:
  "claimed_well_formed
     \<lparr> chart_type = Pie, x_axis_column = None, y_axis_columns = [],
       category_column = Some [], value_column = Some ''v'',
       sort_order = None, sort_by = None, color_mode = None, conditional_colors = None \<rparr>
     [[], ''v''] \<and>
   validateChartConfig
     \<lparr> chart_type = Pie, x_axis_column = None, y_axis_columns = [],
       category_column = Some [], value_column = Some ''v'',
       sort_order = None, sort_by = None, color_mode = None, conditional_colors = None \<rparr>
     [[], ''v''] = Some ''Pie charts require both a category column and a value column''"
  by (simp add: claimed_well_formed_def validateChartConfig_def)

subsection \<open>inferChartConfig\<close>

lemma index0_filter: "index0 (filter P xs) = find P xs"
  by (induction xs) simp_all

lemma inferChartConfig_fields:
  "chart_type (inferChartConfig response) = Bar \<and>
   x_axis_column (inferChartConfig response) =
     or_null (case index0
        (if length (filter (\<lambda>col. \<not> measure_regex_test (toLowerCase col)) (columns response)) > 0
         then map Some (filter (\<lambda>col. \<not> measure_regex_test (toLowerCase col)) (columns response))
         else [index0 (columns response)]) of None \<Rightarrow> None | Some c \<Rightarrow> c)"
  by (simp add: inferChartConfig_def Let_def)

lemma find_filter_Nil: "filter P xs = [] \<Longrightarrow> find P xs = None"
  using index0_filter [of P xs] by simp

lemma find_filter_Cons: "filter P xs = d # ds \<Longrightarrow> find P xs = Some d"
  using index0_filter [of P xs] by simp

text \<open>
  Claim C9, as amended. For a response with at least one column, the inferred configuration
  is a bar chart; the column chosen for the x axis (the first one that does not match the
  measure keywords, or the first column when all match) is a column of the response; the
  x-axis column is that column when its name is non-empty and null when it is the empty
  string; so an x-axis column that is set always names a column of the response.
\<close>

theorem inferChartConfig_x_axis:
  "columns response \<noteq> [] \<Longrightarrow>
     chart_type (inferChartConfig response) = Bar \<and>
     (let chosen = (case find (\<lambda>col. \<not> measure_regex_test (toLowerCase col)) (columns response) of
                      Some d \<Rightarrow> d | None \<Rightarrow> hd (columns response))
      in chosen \<in> set (columns response) \<and>
         x_axis_column (inferChartConfig response) = (if chosen = [] then None else Some chosen)) \<and>
     (case x_axis_column (inferChartConfig response) of
        None \<Rightarrow> True | Some x \<Rightarrow> x \<in> set (columns response))"
proof -
  assume ne: "columns response \<noteq> []"
  let ?P = "\<lambda>col. \<not> measure_regex_test (toLowerCase col)"
  let ?chosen = "case find ?P (columns response) of Some d \<Rightarrow> d | None \<Rightarrow> hd (columns response)"
  have mem: "?chosen \<in> set (columns response)"
    using ne by (auto split: option.splits simp: find_Some_iff)
  have x: "x_axis_column (inferChartConfig response) = (if ?chosen = [] then None else Some ?chosen)"
  proof (cases "filter ?P (columns response)")
    case Nil
    from Nil have f: "find ?P (columns response) = None" by (rule find_filter_Nil)
    from ne obtain c cs where cs: "columns response = c # cs" by (cases "columns response") auto
    have "x_axis_column (inferChartConfig response) = or_null (Some c)"
      using Nil cs by (simp add: inferChartConfig_fields)
    then show ?thesis using f cs by (simp add: or_null_def)
  next
    case (Cons d ds)
    from Cons have f: "find ?P (columns response) = Some d" by (rule find_filter_Cons)
    have "x_axis_column (inferChartConfig response) = or_null (Some d)"
      using Cons by (simp add: inferChartConfig_fields)
    then show ?thesis using f by (simp add: or_null_def)
  qed
  have t: "chart_type (inferChartConfig response) = Bar" by (simp add: inferChartConfig_fields)
  show ?thesis using mem x t by (simp add: Let_def)
qed

theorem inferChartConfig_x_axis_witness:
  "x_axis_column (inferChartConfig
     \<lparr> columns = [''total_sales'', ''region''], data = [], row_count = 0, generated_sql = [],
       entity_name = [] \<rparr>) = Some ''region''"
proof -
  let ?r = "\<lparr> columns = [''total_sales'', ''region''], data = [], row_count = 0,
              generated_sql = [], entity_name = [] \<rparr>"
  have ne: "columns ?r \<noteq> []" by simp
  have a: "measure_regex_test (toLowerCase ''total_sales'')"
    by code_simp
  have b: "\<not> measure_regex_test (toLowerCase ''region'')"
    by code_simp
  show ?thesis using inferChartConfig_x_axis [OF ne] a b by (simp add: Let_def)
qed

text \<open>
  Claim C9 as stated fails for a response whose only column has the empty name: the
  x-axis column is then null and not an element of the columns.
\<close>

theorem inferChartConfig_counterexample:
  "columns \<lparr> columns = [[]], data = [], row_count = 0, generated_sql = [], entity_name = [] \<rparr> \<noteq> [] \<and>
   x_axis_column (inferChartConfig
     \<lparr> columns = [[]], data = [], row_count = 0, generated_sql = [], entity_name = [] \<rparr>) = None"
  by (simp add: inferChartConfig_def or_null_def measure_regex_test_def toLowerCase_def
        measure_keywords_def)

subsection \<open>sortData\<close>

lemma mset_insert_cmp: "mset (insert_cmp cmp x ys) = add_mset x (mset ys)"
  by (induction ys) simp_all

lemma mset_array_sort: "mset (array_sort cmp xs) = mset xs"
  by (induction xs) (simp_all add: mset_insert_cmp)

text \<open>
  Claim C10. With sort order \<open>none\<close> sortData returns its input as it is (the same list,
  and in the store the same reference with the store untouched). For every sort order the
  result holds the same rows as the input, each as often. On the store, the returned
  reference is valid and holds the sorted rows, while every array that existed before the
  call, the caller's among them, is unchanged: only a copy is sorted.
\<close>

theorem sortData_permutation:
  "dat < length st \<Longrightarrow>
     sortData js rows x ys ''none'' sb = rows \<and>
     mset (sortData js rows x ys so sb) = mset rows \<and>
     sortData_store js st dat x ys ''none'' sb = (st, dat) \<and>
     (case sortData_store js st dat x ys so sb of
        (st', r) \<Rightarrow> r < length st' \<and> st' ! r = sortData js (st ! dat) x ys so sb \<and>
                    take (length st) st' = st)"
  by (simp add: sortData_def sortData_store_def mset_array_sort Let_def nth_append)

theorem sortData_permutation_witness:
  "(0::nat) < length [[[(''q'', JNum 5)], [(''q'', JNum 10)], [(''q'', JNum 1)]]] \<and>
   sortData_store
     \<lparr> js_String = (\<lambda>v. case v of JStr s \<Rightarrow> s | _ \<Rightarrow> []),
       js_Number = (\<lambda>v. case v of JNum n \<Rightarrow> Fin n | _ \<Rightarrow> NaN),
       js_localeCompare = (\<lambda>a b. 0) \<rparr>
     [[[(''q'', JNum 5)], [(''q'', JNum 10)], [(''q'', JNum 1)]]] 0 (Some ''r'') [''q'']
     ''descending'' ''value'' =
     ([[[(''q'', JNum 5)], [(''q'', JNum 10)], [(''q'', JNum 1)]],
       [[(''q'', JNum 10)], [(''q'', JNum 5)], [(''q'', JNum 1)]]], 1)"
proof -
  have h: "(0::nat) < length [[[(''q'', JNum 5)], [(''q'', JNum 10)], [(''q'', JNum 1)]]]"
    by simp
  show ?thesis
    using sortData_permutation [OF h, of
      "\<lparr> js_String = (\<lambda>v. case v of JStr s \<Rightarrow> s | _ \<Rightarrow> []),
        js_Number = (\<lambda>v. case v of JNum n \<Rightarrow> Fin n | _ \<Rightarrow> NaN),
        js_localeCompare = (\<lambda>a b. 0) \<rparr>" "[]" "Some ''r''" "[''q'']" "''value''"
      "''descending''"]
    by (simp add: sortData_store_def sortData_def sortData_compare_def or_default_def cell_def
          Let_def)
qed

section \<open>Properties of the pipeline engine\<close>

subsection \<open>Filter step\<close>

lemma eval_condition_number:
  "map_of r col = Some (TNum x) \<Longrightarrow>
     eval_condition r \<lparr> cond_column = col, cond_operator = op, cond_value = TNum b \<rparr> =
       (case op of
          Op_eq \<Rightarrow> Inr (x = b) | Op_ne \<Rightarrow> Inr (x \<noteq> b)
        | Op_gt \<Rightarrow> Inr (b < x) | Op_ge \<Rightarrow> Inr (b \<le> x)
        | Op_lt \<Rightarrow> Inr (x < b) | Op_le \<Rightarrow> Inr (x \<le> b)
        | Op_is_null \<Rightarrow> Inr False | Op_is_not_null \<Rightarrow> Inr True
        | _ \<Rightarrow> Inl (SchemaError col))"
  by (cases op) (simp_all add: eval_condition_def eval_operator_def)

lemma filter_rows_gt:
  "list_all (\<lambda>r. case map_of r col of Some (TNum x) \<Rightarrow> True | _ \<Rightarrow> False) rows \<Longrightarrow>
   filter_rows [\<lparr> cond_column = col, cond_operator = Op_gt, cond_value = TNum b \<rparr>] lop rows =
     Inr (filter (\<lambda>r. case map_of r col of Some (TNum x) \<Rightarrow> b < x | _ \<Rightarrow> False) rows)"
proof (induction rows)
  case Nil
  show ?case by simp
next
  case (Cons r rows)
  then obtain x where x: "map_of r col = Some (TNum x)"
    by (auto split: option.splits tvalue.splits)
  have "eval_conditions r [\<lparr> cond_column = col, cond_operator = Op_gt, cond_value = TNum b \<rparr>] lop
          = Inr (b < x)"
    using eval_condition_number [OF x, of Op_gt b] by (cases lop) simp_all
  with Cons x show ?case by simp
qed

text \<open>
  Claim C4. On a record whose column holds the number \<open>x\<close>, a condition with boundary \<open>b\<close>
  holds exactly when \<open>x > b\<close>, \<open>x \<ge> b\<close>, \<open>x < b\<close>, \<open>x \<le> b\<close>, \<open>x = b\<close> or \<open>x \<noteq> b\<close>, by its
  operator: the strict operators exclude the boundary and the others include it. A Filter
  step with \<open>>\<close> keeps exactly the rows above the boundary, and on rows with unit prices
  800, 1000 and 1500 and boundary 1000 it returns the single row with 1500.
\<close>

theorem filter_boundary_semantics:
  "map_of r col = Some (TNum x) \<Longrightarrow>
   list_all (\<lambda>r. case map_of r col of Some (TNum x) \<Rightarrow> True | _ \<Rightarrow> False) rows \<Longrightarrow>
     eval_condition r \<lparr> cond_column = col, cond_operator = Op_gt, cond_value = TNum b \<rparr> = Inr (x > b) \<and>
     eval_condition r \<lparr> cond_column = col, cond_operator = Op_ge, cond_value = TNum b \<rparr> = Inr (x \<ge> b) \<and>
     eval_condition r \<lparr> cond_column = col, cond_operator = Op_lt, cond_value = TNum b \<rparr> = Inr (x < b) \<and>
     eval_condition r \<lparr> cond_column = col, cond_operator = Op_le, cond_value = TNum b \<rparr> = Inr (x \<le> b) \<and>
     eval_condition r \<lparr> cond_column = col, cond_operator = Op_eq, cond_value = TNum b \<rparr> = Inr (x = b) \<and>
     eval_condition r \<lparr> cond_column = col, cond_operator = Op_ne, cond_value = TNum b \<rparr> = Inr (x \<noteq> b) \<and>
     filter_step [\<lparr> cond_column = col, cond_operator = Op_gt, cond_value = TNum b \<rparr>] lop
         \<lparr> ds_columns = cols, ds_rows = rows \<rparr> =
       Inr \<lparr> ds_columns = cols,
             ds_rows = filter (\<lambda>r. case map_of r col of Some (TNum x) \<Rightarrow> x > b | _ \<Rightarrow> False) rows \<rparr> \<and>
     filter_step [\<lparr> cond_column = ''unit_price'', cond_operator = Op_gt, cond_value = TNum 1000 \<rparr>] AND
         \<lparr> ds_columns = [''unit_price''],
           ds_rows = [[(''unit_price'', TNum 800)], [(''unit_price'', TNum 1000)],
                      [(''unit_price'', TNum 1500)]] \<rparr> =
       Inr \<lparr> ds_columns = [''unit_price''], ds_rows = [[(''unit_price'', TNum 1500)]] \<rparr>"
proof -
  assume x: "map_of r col = Some (TNum x)"
    and rows: "list_all (\<lambda>r. case map_of r col of Some (TNum x) \<Rightarrow> True | _ \<Rightarrow> False) rows"
  have ops: "eval_condition r \<lparr> cond_column = col, cond_operator = Op_gt, cond_value = TNum b \<rparr> = Inr (x > b) \<and>
     eval_condition r \<lparr> cond_column = col, cond_operator = Op_ge, cond_value = TNum b \<rparr> = Inr (x \<ge> b) \<and>
     eval_condition r \<lparr> cond_column = col, cond_operator = Op_lt, cond_value = TNum b \<rparr> = Inr (x < b) \<and>
     eval_condition r \<lparr> cond_column = col, cond_operator = Op_le, cond_value = TNum b \<rparr> = Inr (x \<le> b) \<and>
     eval_condition r \<lparr> cond_column = col, cond_operator = Op_eq, cond_value = TNum b \<rparr> = Inr (x = b) \<and>
     eval_condition r \<lparr> cond_column = col, cond_operator = Op_ne, cond_value = TNum b \<rparr> = Inr (x \<noteq> b)"
    by (simp add: eval_condition_number [OF x])
  have gen: "filter_step [\<lparr> cond_column = col, cond_operator = Op_gt, cond_value = TNum b \<rparr>] lop
         \<lparr> ds_columns = cols, ds_rows = rows \<rparr> =
       Inr \<lparr> ds_columns = cols,
             ds_rows = filter (\<lambda>r. case map_of r col of Some (TNum x) \<Rightarrow> x > b | _ \<Rightarrow> False) rows \<rparr>"
    by (simp add: filter_step_def filter_rows_gt [OF rows])
  have ex: "filter_step [\<lparr> cond_column = ''unit_price'', cond_operator = Op_gt, cond_value = TNum 1000 \<rparr>] AND
         \<lparr> ds_columns = [''unit_price''],
           ds_rows = [[(''unit_price'', TNum 800)], [(''unit_price'', TNum 1000)],
                      [(''unit_price'', TNum 1500)]] \<rparr> =
       Inr \<lparr> ds_columns = [''unit_price''], ds_rows = [[(''unit_price'', TNum 1500)]] \<rparr>"
    by (simp add: filter_step_def eval_condition_def eval_operator_def)
  show ?thesis using ops gen ex by blast
qed

theorem filter_boundary_semantics_witness:
  "map_of [(''unit_price'', TNum 1000)] ''unit_price'' = Some (TNum 1000) \<and>
   eval_condition [(''unit_price'', TNum 1000)]
     \<lparr> cond_column = ''unit_price'', cond_operator = Op_gt, cond_value = TNum 1000 \<rparr> = Inr False \<and>
   eval_condition [(''unit_price'', TNum 1000)]
     \<lparr> cond_column = ''unit_price'', cond_operator = Op_ge, cond_value = TNum 1000 \<rparr> = Inr True \<and>
   filter_step [\<lparr> cond_column = ''unit_price'', cond_operator = Op_gt, cond_value = TNum 1000 \<rparr>] OR
     \<lparr> ds_columns = [''unit_price''],
       ds_rows = [[(''unit_price'', TNum 1000)], [(''unit_price'', TNum 1001)]] \<rparr> =
     Inr \<lparr> ds_columns = [''unit_price''], ds_rows = [[(''unit_price'', TNum 1001)]] \<rparr>"
proof -
  have h1: "map_of [(''unit_price'', TNum 1000)] ''unit_price'' = Some (TNum 1000)" by simp
  have h2: "list_all (\<lambda>r. case map_of r ''unit_price'' of Some (TNum x) \<Rightarrow> True | _ \<Rightarrow> False)
              [[(''unit_price'', TNum 1000)], [(''unit_price'', TNum 1001)]]" by simp
  show ?thesis using filter_boundary_semantics [OF h1 h2, of 1000 OR "[''unit_price'']"] by simp
qed

subsection \<open>Aggregate step\<close>

lemma non_null_numbers_filter:
  "non_null_numbers col (filter (\<lambda>v. v \<noteq> TNull) vs) = non_null_numbers col vs"
  by (induction col vs rule: non_null_numbers.induct) simp_all

lemma non_null_numbers_TNum: "non_null_numbers col (map TNum xs) = Inr xs"
  by (induction xs) simp_all

text \<open>
  Claim C5. \<open>count\<close> is the number of rows of the group, null values of the aggregated
  column included. Every other function gives the same result with the nulls removed from
  its input, and on a column of numbers with a null it is the statistic of the numbers
  alone. In the example a null quantity leaves the sum of its group at 30 and is counted
  by \<open>count\<close>, which gives 3.
\<close>

theorem aggregate_null_policy:
  "aggregate_values d col Agg_count vs = Inr (TNum (of_nat (length vs))) \<and>
   (f \<noteq> Agg_count \<longrightarrow>
      aggregate_values d col f vs = aggregate_values d col f (filter (\<lambda>v. v \<noteq> TNull) vs) \<and>
      aggregate_values d col f (TNull # map TNum xs) = Inr (statistic d f xs)) \<and>
   aggregate_values d col Agg_count (TNull # map TNum xs) = Inr (TNum (of_nat (length xs) + 1)) \<and>
   aggregate_step d [''region'']
     [\<lparr> agg_column = ''quantity'', agg_function = Agg_sum, agg_alias = ''total_quantity'' \<rparr>,
      \<lparr> agg_column = ''quantity'', agg_function = Agg_count, agg_alias = ''n'' \<rparr>]
     \<lparr> ds_columns = [''region'', ''quantity''],
       ds_rows = [[(''region'', TStr ''North''), (''quantity'', TNum 10)],
                  [(''region'', TStr ''North''), (''quantity'', TNull)],
                  [(''region'', TStr ''North''), (''quantity'', TNum 20)],
                  [(''region'', TStr ''South''), (''quantity'', TNum 5)]] \<rparr> =
     Inr \<lparr> ds_columns = [''region'', ''total_quantity'', ''n''],
           ds_rows = [[(''region'', TStr ''North''), (''total_quantity'', TNum 30), (''n'', TNum 3)],
                      [(''region'', TStr ''South''), (''total_quantity'', TNum 5), (''n'', TNum 1)]] \<rparr>"
proof -
  have a: "aggregate_values d col Agg_count vs = Inr (TNum (of_nat (length vs)))"
    by (simp add: aggregate_values_def)
  have b: "f \<noteq> Agg_count \<longrightarrow>
      aggregate_values d col f vs = aggregate_values d col f (filter (\<lambda>v. v \<noteq> TNull) vs) \<and>
      aggregate_values d col f (TNull # map TNum xs) = Inr (statistic d f xs)"
    by (simp add: aggregate_values_def non_null_numbers_filter non_null_numbers_TNum)
  have c: "aggregate_values d col Agg_count (TNull # map TNum xs) = Inr (TNum (of_nat (length xs) + 1))"
    by (simp add: aggregate_values_def)
  have e: "aggregate_step d [''region'']
     [\<lparr> agg_column = ''quantity'', agg_function = Agg_sum, agg_alias = ''total_quantity'' \<rparr>,
      \<lparr> agg_column = ''quantity'', agg_function = Agg_count, agg_alias = ''n'' \<rparr>]
     \<lparr> ds_columns = [''region'', ''quantity''],
       ds_rows = [[(''region'', TStr ''North''), (''quantity'', TNum 10)],
                  [(''region'', TStr ''North''), (''quantity'', TNull)],
                  [(''region'', TStr ''North''), (''quantity'', TNum 20)],
                  [(''region'', TStr ''South''), (''quantity'', TNum 5)]] \<rparr> =
     Inr \<lparr> ds_columns = [''region'', ''total_quantity'', ''n''],
           ds_rows = [[(''region'', TStr ''North''), (''total_quantity'', TNum 30), (''n'', TNum 3)],
                      [(''region'', TStr ''South''), (''total_quantity'', TNum 5), (''n'', TNum 1)]] \<rparr>"
    by (simp add: aggregate_step_def group_of_def aggregate_values_def statistic_def)
  show ?thesis using a b c e by blast
qed

theorem aggregate_null_policy_witness:
  "Agg_sum \<noteq> Agg_count \<and>
   aggregate_values (\<lambda>f xs. TNull) ''quantity'' Agg_sum [TNum 10, TNull, TNum 20] = Inr (TNum 30) \<and>
   aggregate_values (\<lambda>f xs. TNull) ''quantity'' Agg_sum [TNum 10, TNum 20] = Inr (TNum 30) \<and>
   aggregate_values (\<lambda>f xs. TNull) ''quantity'' Agg_count [TNum 10, TNull, TNum 20] = Inr (TNum 3)"
  using aggregate_null_policy [of "\<lambda>f xs. TNull" "''quantity''" "[TNum 10, TNull, TNum 20]" Agg_sum "[]"]
  by (simp add: aggregate_values_def statistic_def)

subsection \<open>Validation of the step order\<close>

lemma sorted_map_int_upt: "sorted (map int [0..<n])"
  by (induction n) (auto simp: sorted_append)

lemma distinct_map_int_upt: "distinct (map int [0..<n])"
  by (simp add: distinct_map inj_on_def)

lemma set_map_int_upt: "set (map int [0..<n]) = {0..<int n}"
proof -
  have "int ` {0..<n} = {int 0..<int n}" by (rule image_int_atLeastLessThan)
  then show ?thesis by simp
qed

lemma order_values_exact:
  "(sort xs = map int [0..<length xs]) = (distinct xs \<and> set xs = {0..<int (length xs)})"
proof
  assume h: "sort xs = map int [0..<length xs]"
  have "distinct (sort xs)" using h distinct_map_int_upt by simp
  then have d: "distinct xs" by simp
  have "set (sort xs) = {0..<int (length xs)}" using h set_map_int_upt by simp
  then have "set xs = {0..<int (length xs)}" by simp
  with d show "distinct xs \<and> set xs = {0..<int (length xs)}" by simp
next
  assume h: "distinct xs \<and> set xs = {0..<int (length xs)}"
  have "sorted (sort xs)" "distinct (sort xs)" "set (sort xs) = set (map int [0..<length xs])"
    using h set_map_int_upt by simp_all
  then show "sort xs = map int [0..<length xs]"
    using sorted_distinct_set_unique [OF _ _ sorted_map_int_upt distinct_map_int_upt] by blast
qed

lemma ExecutePipeline_invalid:
  "\<not> valid (validate cat p) \<Longrightarrow>
   ExecutePipeline cat backend t0 t1 runs p opts = (runs, Inl (errors (validate cat p)))"
  by (simp add: ExecutePipeline_def Let_def)

lemma valid_iff_no_errors: "valid (validate cat p) = (errors (validate cat p) = [])"
  by (simp add: validate_def Let_def)

lemma order_error_listed:
  "sort (map step_order (steps p)) \<noteq> map int [0..<length (steps p)] \<Longrightarrow>
   Step_order_mismatch \<in> set (errors (validate cat p))"
  by (simp add: validate_def Let_def order_rule_def)

text \<open>
  Claim C6. When the order values of a pipeline's steps are not exactly \<open>0, ..., N-1\<close>,
  each once (a gap or a duplicate), validation reports the step-order error and the
  pipeline is invalid; ExecutePipeline then returns the validation errors, creates no run
  and runs no step (its result does not depend on the backend).
\<close>

theorem order_values_validated:
  "\<not> (distinct (map step_order (steps p)) \<and>
       set (map step_order (steps p)) = {0..<int (length (steps p))}) \<Longrightarrow>
     Step_order_mismatch \<in> set (errors (validate cat p)) \<and>
     \<not> valid (validate cat p) \<and>
     ExecutePipeline cat backend t0 t1 runs p opts = (runs, Inl (errors (validate cat p)))"
proof -
  assume h: "\<not> (distinct (map step_order (steps p)) \<and>
       set (map step_order (steps p)) = {0..<int (length (steps p))})"
  then have "sort (map step_order (steps p)) \<noteq> map int [0..<length (steps p)]"
    using order_values_exact [of "map step_order (steps p)"] by simp
  then have e: "Step_order_mismatch \<in> set (errors (validate cat p))"
    by (rule order_error_listed)
  then have v: "\<not> valid (validate cat p)"
    using valid_iff_no_errors [of cat p] by auto
  show ?thesis using e v ExecutePipeline_invalid [OF v] by simp
qed

theorem order_values_validated_witness:
  "\<not> (distinct (map step_order
         [\<lparr> step_order = 0, step_name = ''Load'', step_config = SourceConfig ''ds1'' ''sales'',
            output_alias = ''raw_sales'' \<rparr>,
          \<lparr> step_order = 2, step_name = ''Filter'',
            step_config = FilterConfig ''raw_sales'' [] AND, output_alias = ''filtered'' \<rparr>]) \<and>
       set (map step_order
         [\<lparr> step_order = 0, step_name = ''Load'', step_config = SourceConfig ''ds1'' ''sales'',
            output_alias = ''raw_sales'' \<rparr>,
          \<lparr> step_order = 2, step_name = ''Filter'',
            step_config = FilterConfig ''raw_sales'' [] AND, output_alias = ''filtered'' \<rparr>]) =
         {0..<int 2}) \<and>
   errors (validate \<lparr> ResolveDataSource = (\<lambda>i. Some ''csv''), static_type = (\<lambda>a c. None) \<rparr>
     \<lparr> pipeline_id = ''p1'', steps =
         [\<lparr> step_order = 0, step_name = ''Load'', step_config = SourceConfig ''ds1'' ''sales'',
            output_alias = ''raw_sales'' \<rparr>,
          \<lparr> step_order = 2, step_name = ''Filter'',
            step_config = FilterConfig ''raw_sales'' [] AND, output_alias = ''filtered'' \<rparr>] \<rparr>) =
     [Step_order_mismatch]"
proof -
  let ?p = "\<lparr> pipeline_id = ''p1'', steps =
         [\<lparr> step_order = 0, step_name = ''Load'', step_config = SourceConfig ''ds1'' ''sales'',
            output_alias = ''raw_sales'' \<rparr>,
          \<lparr> step_order = 2, step_name = ''Filter'',
            step_config = FilterConfig ''raw_sales'' [] AND, output_alias = ''filtered'' \<rparr>] \<rparr>"
  let ?cat = "\<lparr> ResolveDataSource = (\<lambda>i. Some ''csv''), static_type = (\<lambda>a c. None) \<rparr>"
  have s: "{0..<2::int} = {0, 1}" by auto
  have h: "\<not> (distinct (map step_order (steps ?p)) \<and>
       set (map step_order (steps ?p)) = {0..<int (length (steps ?p))})"
    by (simp add: s doubleton_eq_iff)
  have e: "errors (validate ?cat ?p) = [Step_order_mismatch]"
    by (simp add: validate_def Let_def order_rule_def first_step_rule_def alias_rule_def
          union_rule_def data_source_rule_def operator_rule_def step_type_def)
  have "Step_order_mismatch \<in> set (errors (validate ?cat ?p))"
    using order_values_validated [OF h, of ?cat] by blast
  with h e show ?thesis by (simp add: s doubleton_eq_iff)
qed

subsection \<open>Run records\<close>

lemma char_of_48: "char_of (48::nat) = CHR ''0''"
  by code_simp

lemma failure_message_nonempty: "failure_message s e \<noteq> []"
  by (simp add: failure_message_def)

lemma CreateRun_UpdateRun:
  "CreateRun runs pid t0 = (runs1, rid) \<Longrightarrow>
   UpdateRun runs1 rid st n t1 elog err =
     runs @ [\<lparr> run_id = length runs, run_pipeline_id = pid, run_status = st, started_at = t0,
               completed_at = Some t1, rows_processed = n, execution_log = elog,
               error_message = err \<rparr>]"
  by (auto simp: CreateRun_def UpdateRun_def)

lemma ExecutePipeline_valid:
  "valid (validate cat p) \<Longrightarrow>
   ExecutePipeline cat backend t0 t1 runs p opts =
     (case run_steps backend opts (sort_key step_order (steps p)) []
             \<lparr> ds_columns = [], ds_rows = [] \<rparr> [] of
        (elog, Inl (s, e)) \<Rightarrow>
          (runs @ [\<lparr> run_id = length runs, run_pipeline_id = pipeline_id p, run_status = Failed,
                     started_at = t0, completed_at = Some t1, rows_processed = 0,
                     execution_log = elog, error_message = Some (failure_message s e) \<rparr>],
           Inr \<lparr> resp_run_id = length runs, resp_status = Failed, resp_rows_processed = 0,
                 resp_execution_time = t1 - t0, resp_data = None,
                 resp_error_message = Some (failure_message s e) \<rparr>)
      | (elog, Inr ds) \<Rightarrow>
          (runs @ [\<lparr> run_id = length runs, run_pipeline_id = pipeline_id p, run_status = Success,
                     started_at = t0, completed_at = Some t1,
                     rows_processed = length (ds_rows ds), execution_log = elog,
                     error_message = None \<rparr>],
           Inr \<lparr> resp_run_id = length runs, resp_status = Success,
                 resp_rows_processed = length (ds_rows ds), resp_execution_time = t1 - t0,
                 resp_data = Some ds, resp_error_message = None \<rparr>))"
  by (auto simp: ExecutePipeline_def Let_def CreateRun_def UpdateRun_def
           split: prod.splits sum.splits)

text \<open>
  Claim C7. A pipeline that fails validation gets no run record: ExecutePipeline returns
  the (non-empty) list of validation errors and the stored runs as they were; the witness
  is a pipeline whose second step consumes an alias that no step produces, rejected with
  the alias-not-found error. A pipeline that passes validation gets exactly one new run
  record, completed with a terminal status; when a step fails, the status is failed and
  the error message is the non-empty text naming the step. A delivery failure reported
  against a successful run makes it partial, with a message.
\<close>

theorem run_record_policy:
  "(\<not> valid (validate cat p) \<longrightarrow>
      ExecutePipeline cat backend t0 t1 runs p opts = (runs, Inl (errors (validate cat p))) \<and>
      errors (validate cat p) \<noteq> []) \<and>
   (valid (validate cat p) \<longrightarrow>
      (case ExecutePipeline cat backend t0 t1 runs p opts of
         (runs', res) \<Rightarrow>
           length runs' = Suc (length runs) \<and> take (length runs) runs' = runs \<and>
           terminal (run_status (last runs')) \<and> completed_at (last runs') = Some t1 \<and>
           (case snd (run_steps backend opts (sort_key step_order (steps p)) []
                        \<lparr> ds_columns = [], ds_rows = [] \<rparr> []) of
              Inl (s, e) \<Rightarrow>
                run_status (last runs') = Failed \<and>
                error_message (last runs') = Some (failure_message s e) \<and>
                failure_message s e \<noteq> []
            | Inr ds \<Rightarrow>
                run_status (last runs') = Success \<and>
                rows_processed (last runs') = length (ds_rows ds)))) \<and>
   (rid < length runs \<and> run_status (runs ! rid) = Success \<longrightarrow>
      run_status (report_delivery_failure runs rid detail ! rid) = Partial \<and>
      error_message (report_delivery_failure runs rid detail ! rid) =
        Some (''Delivery failed: '' @ detail))"
proof -
  have a: "\<not> valid (validate cat p) \<longrightarrow>
      ExecutePipeline cat backend t0 t1 runs p opts = (runs, Inl (errors (validate cat p))) \<and>
      errors (validate cat p) \<noteq> []"
    using ExecutePipeline_invalid [of cat p backend t0 t1 runs opts] valid_iff_no_errors [of cat p]
    by blast
  have b: "valid (validate cat p) \<longrightarrow>
      (case ExecutePipeline cat backend t0 t1 runs p opts of
         (runs', res) \<Rightarrow>
           length runs' = Suc (length runs) \<and> take (length runs) runs' = runs \<and>
           terminal (run_status (last runs')) \<and> completed_at (last runs') = Some t1 \<and>
           (case snd (run_steps backend opts (sort_key step_order (steps p)) []
                        \<lparr> ds_columns = [], ds_rows = [] \<rparr> []) of
              Inl (s, e) \<Rightarrow>
                run_status (last runs') = Failed \<and>
                error_message (last runs') = Some (failure_message s e) \<and>
                failure_message s e \<noteq> []
            | Inr ds \<Rightarrow>
                run_status (last runs') = Success \<and>
                rows_processed (last runs') = length (ds_rows ds)))"
  proof
    assume v: "valid (validate cat p)"
    show "case ExecutePipeline cat backend t0 t1 runs p opts of
         (runs', res) \<Rightarrow>
           length runs' = Suc (length runs) \<and> take (length runs) runs' = runs \<and>
           terminal (run_status (last runs')) \<and> completed_at (last runs') = Some t1 \<and>
           (case snd (run_steps backend opts (sort_key step_order (steps p)) []
                        \<lparr> ds_columns = [], ds_rows = [] \<rparr> []) of
              Inl (s, e) \<Rightarrow>
                run_status (last runs') = Failed \<and>
                error_message (last runs') = Some (failure_message s e) \<and>
                failure_message s e \<noteq> []
            | Inr ds \<Rightarrow>
                run_status (last runs') = Success \<and>
                rows_processed (last runs') = length (ds_rows ds))"
      unfolding ExecutePipeline_valid [OF v]
      by (auto simp: terminal_def failure_message_nonempty split: prod.splits sum.splits)
  qed
  have c: "rid < length runs \<and> run_status (runs ! rid) = Success \<longrightarrow>
      run_status (report_delivery_failure runs rid detail ! rid) = Partial \<and>
      error_message (report_delivery_failure runs rid detail ! rid) =
        Some (''Delivery failed: '' @ detail)"
    by (simp add: report_delivery_failure_def)
  show ?thesis using a b c by blast
qed

theorem run_record_policy_witness:
  "errors (validate \<lparr> ResolveDataSource = (\<lambda>i. Some ''csv''), static_type = (\<lambda>a c. None) \<rparr>
     \<lparr> pipeline_id = ''p1'', steps =
         [\<lparr> step_order = 0, step_name = ''Load'', step_config = SourceConfig ''ds1'' ''sales'',
            output_alias = ''raw_sales'' \<rparr>,
          \<lparr> step_order = 1, step_name = ''Filter'',
            step_config = FilterConfig ''sales_raw'' [] AND, output_alias = ''filtered'' \<rparr>] \<rparr>) =
     [Alias_not_found ''Filter'' ''sales_raw''] \<and>
   fst (ExecutePipeline \<lparr> ResolveDataSource = (\<lambda>i. Some ''csv''), static_type = (\<lambda>a c. None) \<rparr>
     \<lparr> load_source = (\<lambda>i t opts. Inl (DataSourceError ''no file'')),
       apply_join = (\<lambda>c a b. Inl ExecutionTimeout), apply_select = (\<lambda>c a. Inl ExecutionTimeout),
       apply_sort = (\<lambda>c a. Inl ExecutionTimeout), apply_union = (\<lambda>c a. Inl ExecutionTimeout),
       dispersion = (\<lambda>f xs. TNull) \<rparr> 10 12 []
     \<lparr> pipeline_id = ''p1'', steps =
         [\<lparr> step_order = 0, step_name = ''Load'', step_config = SourceConfig ''ds1'' ''sales'',
            output_alias = ''raw_sales'' \<rparr>,
          \<lparr> step_order = 1, step_name = ''Filter'',
            step_config = FilterConfig ''sales_raw'' [] AND, output_alias = ''filtered'' \<rparr>] \<rparr>
     \<lparr> opt_limit = None, preview_mode = False \<rparr>) = [] \<and>
   valid (validate \<lparr> ResolveDataSource = (\<lambda>i. Some ''csv''), static_type = (\<lambda>a c. None) \<rparr>
     \<lparr> pipeline_id = ''p2'', steps =
         [\<lparr> step_order = 0, step_name = ''Load'', step_config = SourceConfig ''ds1'' ''sales'',
            output_alias = ''raw_sales'' \<rparr>] \<rparr>) \<and>
   fst (ExecutePipeline \<lparr> ResolveDataSource = (\<lambda>i. Some ''csv''), static_type = (\<lambda>a c. None) \<rparr>
     \<lparr> load_source = (\<lambda>i t opts. Inl (DataSourceError ''no file'')),
       apply_join = (\<lambda>c a b. Inl ExecutionTimeout), apply_select = (\<lambda>c a. Inl ExecutionTimeout),
       apply_sort = (\<lambda>c a. Inl ExecutionTimeout), apply_union = (\<lambda>c a. Inl ExecutionTimeout),
       dispersion = (\<lambda>f xs. TNull) \<rparr> 10 12 []
     \<lparr> pipeline_id = ''p2'', steps =
         [\<lparr> step_order = 0, step_name = ''Load'', step_config = SourceConfig ''ds1'' ''sales'',
            output_alias = ''raw_sales'' \<rparr>] \<rparr>
     \<lparr> opt_limit = None, preview_mode = False \<rparr>) =
     [\<lparr> run_id = 0, run_pipeline_id = ''p2'', run_status = Failed, started_at = 10,
        completed_at = Some 12, rows_processed = 0,
        execution_log = [\<lparr> log_order = 0, log_name = ''Load'',
                           log_error = Some ''Data source error: no file'' \<rparr>],
        error_message = Some ''Step 0 (Load): Data source error: no file'' \<rparr>] \<and>
   terminal (run_status (last (fst (ExecutePipeline
     \<lparr> ResolveDataSource = (\<lambda>i. Some ''csv''), static_type = (\<lambda>a c. None) \<rparr>
     \<lparr> load_source = (\<lambda>i t opts. Inl (DataSourceError ''no file'')),
       apply_join = (\<lambda>c a b. Inl ExecutionTimeout), apply_select = (\<lambda>c a. Inl ExecutionTimeout),
       apply_sort = (\<lambda>c a. Inl ExecutionTimeout), apply_union = (\<lambda>c a. Inl ExecutionTimeout),
       dispersion = (\<lambda>f xs. TNull) \<rparr> 10 12 []
     \<lparr> pipeline_id = ''p2'', steps =
         [\<lparr> step_order = 0, step_name = ''Load'', step_config = SourceConfig ''ds1'' ''sales'',
            output_alias = ''raw_sales'' \<rparr>] \<rparr>
     \<lparr> opt_limit = None, preview_mode = False \<rparr>))))"
proof -
  let ?cat = "\<lparr> ResolveDataSource = (\<lambda>i. Some ''csv''), static_type = (\<lambda>a c. None) \<rparr>"
  let ?backend = "\<lparr> load_source = (\<lambda>i t opts. Inl (DataSourceError ''no file'')),
       apply_join = (\<lambda>c a b. Inl ExecutionTimeout), apply_select = (\<lambda>c a. Inl ExecutionTimeout),
       apply_sort = (\<lambda>c a. Inl ExecutionTimeout), apply_union = (\<lambda>c a. Inl ExecutionTimeout),
       dispersion = (\<lambda>f xs. TNull) \<rparr>"
  let ?p1 = "\<lparr> pipeline_id = ''p1'', steps =
         [\<lparr> step_order = 0, step_name = ''Load'', step_config = SourceConfig ''ds1'' ''sales'',
            output_alias = ''raw_sales'' \<rparr>,
          \<lparr> step_order = 1, step_name = ''Filter'',
            step_config = FilterConfig ''sales_raw'' [] AND, output_alias = ''filtered'' \<rparr>] \<rparr>"
  let ?p2 = "\<lparr> pipeline_id = ''p2'', steps =
         [\<lparr> step_order = 0, step_name = ''Load'', step_config = SourceConfig ''ds1'' ''sales'',
            output_alias = ''raw_sales'' \<rparr>] \<rparr>"
  let ?opts = "\<lparr> opt_limit = None, preview_mode = False \<rparr>"
  have e1: "errors (validate ?cat ?p1) = [Alias_not_found ''Filter'' ''sales_raw'']"
    by (simp add: validate_def Let_def order_rule_def first_step_rule_def alias_rule_def
          union_rule_def data_source_rule_def operator_rule_def step_type_def)
  then have nv: "\<not> valid (validate ?cat ?p1)"
    by (simp add: validate_def Let_def)
  have r1: "fst (ExecutePipeline ?cat ?backend 10 12 [] ?p1 ?opts) = []"
    using run_record_policy [of ?cat ?p1 ?backend 10 12 "[]" ?opts] nv by simp
  have v2: "valid (validate ?cat ?p2)"
    by (simp add: validate_def Let_def order_rule_def first_step_rule_def alias_rule_def
          union_rule_def data_source_rule_def operator_rule_def step_type_def)
  have r2: "fst (ExecutePipeline ?cat ?backend 10 12 [] ?p2 ?opts) =
     [\<lparr> run_id = 0, run_pipeline_id = ''p2'', run_status = Failed, started_at = 10,
        completed_at = Some 12, rows_processed = 0,
        execution_log = [\<lparr> log_order = 0, log_name = ''Load'',
                           log_error = Some ''Data source error: no file'' \<rparr>],
        error_message = Some ''Step 0 (Load): Data source error: no file'' \<rparr>]"
    using v2
    by (simp add: ExecutePipeline_def Let_def CreateRun_def UpdateRun_def execute_step_def
          failure_message_def char_of_48)
  have t2: "terminal (run_status (last (fst (ExecutePipeline ?cat ?backend 10 12 [] ?p2 ?opts))))"
    using run_record_policy [of ?cat ?p2 ?backend 10 12 "[]" ?opts] v2
    by (simp split: prod.splits)
  show ?thesis using e1 r1 v2 r2 t2 by blast
qed

end
